theory Spec2Isabelle
  imports Complex_Main "HOL-Library.Sublist" "HOL-Library.Multiset"
begin

section \<open>JavaScript strings\<close>

text \<open>
  A JavaScript string is modelled as a \<^typ>\<open>string\<close>; a \<^typ>\<open>char\<close> stands for a code unit
  below 256 (the Latin-1 range). The built-ins the route handlers call are written out on
  that range: \<open>\s\<close> and \<open>trim\<close> know the code units 9 to 13, 32 and 160, and
  \<open>toLowerCase\<close> maps A-Z and the accented capitals 192 to 222 (215 apart).
\<close>

definition is_space :: "char \<Rightarrow> bool" where
  "is_space c = ((of_char c :: nat) \<in> {9, 10, 11, 12, 13, 32, 160})"

definition is_digit :: "char \<Rightarrow> bool" where
  "is_digit c = (48 \<le> (of_char c :: nat) \<and> (of_char c :: nat) \<le> 57)"

definition trim :: "string \<Rightarrow> string" where
  "trim s = rev (dropWhile is_space (rev (dropWhile is_space s)))"

definition lower_char :: "char \<Rightarrow> char" where
  "lower_char c =
     (let n = (of_char c :: nat)
      in if (65 \<le> n \<and> n \<le> 90) \<or> (192 \<le> n \<and> n \<le> 222 \<and> n \<noteq> 215)
         then char_of (n + 32) else c)"

definition toLowerCase :: "string \<Rightarrow> string" where
  "toLowerCase s = map lower_char s"

text \<open>\<open>s.includes(sub)\<close>: does \<open>sub\<close> occur in \<open>s\<close>.\<close>

fun str_includes :: "string \<Rightarrow> string \<Rightarrow> bool" where
  "str_includes [] sub = (sub = [])"
| "str_includes (c # cs) sub = (prefix sub (c # cs) \<or> str_includes cs sub)"

text \<open>
  \<open>s.replace(pat, '')\<close> with a string pattern: the first occurrence of \<open>pat\<close> is
  removed, and \<open>s\<close> is returned as it is when there is none.
\<close>

fun remove_first :: "string \<Rightarrow> string \<Rightarrow> string" where
  "remove_first [] pat = []"
| "remove_first (c # cs) pat =
     (if prefix pat (c # cs) then drop (length pat) (c # cs) else c # remove_first cs pat)"

text \<open>\<open>parseInt\<close> on a string of decimal digits.\<close>

definition digit_val :: "char \<Rightarrow> nat" where
  "digit_val c = (of_char c :: nat) - 48"

definition parseInt :: "string \<Rightarrow> nat" where
  "parseInt s = foldl (\<lambda>acc c. 10 * acc + digit_val c) 0 s"

text \<open>The decimal numeral of an array index, as it names a property.\<close>

fun show_nat :: "nat \<Rightarrow> string" where
  "show_nat n =
     (if n < 10 then [char_of (48 + n)] else show_nat (n div 10) @ [char_of (48 + n mod 10)])"

declare show_nat.simps [simp del]

section \<open>Regular expressions\<close>

text \<open>
  The regular expressions of the handlers use literals, character classes, sequence,
  alternation, the optional \<open>?\<close>, greedy and lazy repetition of a character class,
  capture groups and the end anchor. \<open>rx_paths r s\<close> lists every way \<open>r\<close> matches a prefix
  of \<open>s\<close>, as the captures made and the text left over, in the order a backtracking
  matcher tries them; the head of the list is the match JavaScript reports.
\<close>

datatype rx =
    Lit string
  | Cls "char \<Rightarrow> bool"
  | Seq rx rx
  | Alt rx rx
  | Opt rx
  | Star "char \<Rightarrow> bool"
  | StarLazy "char \<Rightarrow> bool"
  | Grp nat rx
  | Eos

type_synonym caps = "(nat \<times> string) list"

fun rx_paths :: "rx \<Rightarrow> string \<Rightarrow> (caps \<times> string) list" where
  "rx_paths (Lit l) s = (if prefix l s then [([], drop (length l) s)] else [])"
| "rx_paths (Cls p) s = (case s of [] \<Rightarrow> [] | c # cs \<Rightarrow> if p c then [([], cs)] else [])"
| "rx_paths (Seq a b) s =
     concat (map (\<lambda>(c1, s1). map (\<lambda>(c2, s2). (c2 @ c1, s2)) (rx_paths b s1)) (rx_paths a s))"
| "rx_paths (Alt a b) s = rx_paths a s @ rx_paths b s"
| "rx_paths (Opt a) s = rx_paths a s @ [([], s)]"
| "rx_paths (Star p) s = map (\<lambda>k. ([], drop k s)) (rev [0..<Suc (length (takeWhile p s))])"
| "rx_paths (StarLazy p) s = map (\<lambda>k. ([], drop k s)) [0..<Suc (length (takeWhile p s))]"
| "rx_paths (Grp n a) s = map (\<lambda>(c, s'). ((n, take (length s - length s') s) # c, s')) (rx_paths a s)"
| "rx_paths Eos s = (if s = [] then [([], [])] else [])"

record rx_match =
  m_before :: string
  matched :: string
  groups :: caps
  m_after :: string

text \<open>\<open>s.match(r)\<close> without the \<open>g\<close> flag: the leftmost position with a match.\<close>

fun rx_exec :: "rx \<Rightarrow> string \<Rightarrow> rx_match option" where
  "rx_exec r [] =
     (case rx_paths r [] of
        [] \<Rightarrow> None
      | (c, rest) # _ \<Rightarrow> Some \<lparr>m_before = [], matched = [], groups = c, m_after = rest\<rparr>)"
| "rx_exec r (x # xs) =
     (case rx_paths r (x # xs) of
        [] \<Rightarrow> map_option (\<lambda>m. m\<lparr>m_before := x # m_before m\<rparr>) (rx_exec r xs)
      | (c, rest) # _ \<Rightarrow>
          Some \<lparr>m_before = [], matched = take (length (x # xs) - length rest) (x # xs),
                groups = c, m_after = rest\<rparr>)"

text \<open>A pattern that begins with \<open>^\<close> can only match at the start of the string.\<close>

definition rx_exec_start :: "rx \<Rightarrow> string \<Rightarrow> rx_match option" where
  "rx_exec_start r s =
     (case rx_paths r s of
        [] \<Rightarrow> None
      | (c, rest) # _ \<Rightarrow>
          Some \<lparr>m_before = [], matched = take (length s - length rest) s, groups = c, m_after = rest\<rparr>)"

text \<open>
  No match of \<open>r\<close> starts at one of the first \<open>n\<close> positions of \<open>s\<close>.
\<close>

definition no_match_before :: "rx \<Rightarrow> string \<Rightarrow> nat \<Rightarrow> bool" where
  "no_match_before r s n = list_all (\<lambda>k. rx_paths r (drop k s) = []) [0..<n]"

text \<open>\<open>s.replace(r, '')\<close> with a regular expression without the \<open>g\<close> flag.\<close>

definition rx_remove :: "rx_match option \<Rightarrow> string \<Rightarrow> string" where
  "rx_remove m s = (case m of None \<Rightarrow> s | Some x \<Rightarrow> m_before x @ m_after x)"

definition group :: "rx_match \<Rightarrow> nat \<Rightarrow> string option" where
  "group m n = map_of (groups m) n"

definition lit_ci :: "string \<Rightarrow> rx" where
  "lit_ci l = foldr (\<lambda>c r. Seq (Cls (\<lambda>d. lower_char d = lower_char c)) r) l (Lit [])"

definition plus :: "(char \<Rightarrow> bool) \<Rightarrow> rx" where
  "plus p = Seq (Cls p) (Star p)"

definition seqs :: "rx list \<Rightarrow> rx" where
  "seqs rs = foldr Seq rs (Lit [])"

text \<open>
  \<open>s.replace(r, '')\<close> with the \<open>g\<close> flag: every match is removed, the search going on
  behind the last match (one code unit further on after an empty match).
\<close>

fun rx_remove_all :: "rx \<Rightarrow> string \<Rightarrow> string" where
  "rx_remove_all r s =
     (case rx_exec r s of
        None \<Rightarrow> s
      | Some m \<Rightarrow>
          if length (m_after m) < length s then m_before m @ rx_remove_all r (m_after m)
          else (case s of [] \<Rightarrow> [] | c # cs \<Rightarrow> c # rx_remove_all r cs))"

declare rx_remove_all.simps [simp del]

section \<open>JSON values\<close>

text \<open>
  What \<open>JSON.parse\<close> and \<open>request.json()\<close> return, and what the \<open>data\<close> column
  holds. An object is a finite map from property names to values; \<open>undefined\<close> is the
  \<open>None\<close> of a \<^typ>\<open>'a option\<close>. Numbers are modelled as reals.
\<close>

datatype json =
    JNull
  | JBool bool
  | JNum real
  | JStr string
  | JArr "json list"
  | JObj "string \<Rightarrow> json option"

text \<open>
  \<open>v.k\<close> for a value that is not \<open>null\<close> and a name \<open>k\<close> that is neither an index nor
  a member of a prototype (the handlers read \<open>action\<close>, \<open>updates\<close>, \<open>status\<close>,
  \<open>notes\<close>, \<open>deadline\<close>, \<open>category\<close>, \<open>data\<close>, \<open>confidence\<close>, \<open>name\<close> and the
  like): only an object has such a property.
\<close>

definition get_prop :: "json \<Rightarrow> string \<Rightarrow> json option" where
  "get_prop v k = (case v of JObj m \<Rightarrow> m k | _ \<Rightarrow> None)"

definition truthy :: "json option \<Rightarrow> bool" where
  "truthy v =
     (case v of
        None \<Rightarrow> False
      | Some JNull \<Rightarrow> False
      | Some (JBool b) \<Rightarrow> b
      | Some (JNum x) \<Rightarrow> x \<noteq> 0
      | Some (JStr s) \<Rightarrow> s \<noteq> []
      | Some _ \<Rightarrow> True)"

text \<open>\<open>a ?? b\<close>: \<open>b\<close> when \<open>a\<close> is \<open>null\<close> or \<open>undefined\<close>.\<close>

definition nullish_or :: "json option \<Rightarrow> json \<Rightarrow> json" where
  "nullish_or a b = (case a of None \<Rightarrow> b | Some JNull \<Rightarrow> b | Some v \<Rightarrow> v)"

text \<open>
  The own enumerable properties an object spread \<open>{...v}\<close> copies: those of an object,
  the elements of an array and the code units of a string under their indices, nothing
  for the other values.
\<close>

definition own_props :: "json \<Rightarrow> (string \<Rightarrow> json option)" where
  "own_props v =
     (case v of
        JObj m \<Rightarrow> m
      | JArr xs \<Rightarrow> map_of (zip (map show_nat [0..<length xs]) xs)
      | JStr s \<Rightarrow> map_of (zip (map show_nat [0..<length s]) (map (\<lambda>c. JStr [c]) s))
      | _ \<Rightarrow> Map.empty)"

text \<open>\<open>{...a, ...b}\<close>\<close>

definition spread :: "json \<Rightarrow> json \<Rightarrow> json" where
  "spread a b = JObj (own_props a ++ own_props b)"

section \<open>Built-ins and the clock\<close>

text \<open>
  The functions of the JavaScript runtime and of the libraries that the handlers call and
  whose results are not computed here are parameters: \<open>JSON.parse\<close> (\<open>None\<close> when it
  throws), the date parser behind \<open>new Date(string)\<close> (\<open>None\<close> for an invalid date),
  \<open>toISOString\<close>, the conversions of a value to a string and to a number, the time
  zone and the clock. An instant is a number of milliseconds since the epoch. The time
  zone is given by the two functions of the language standard: \<open>LocalTime\<close> takes an
  instant to its local time value, \<open>UTC\<close> takes a local time value to an instant; the
  offset may change from one instant to another. The two documents of the export, the
  HTML page and the PDF file, are functions of the idea and of its plan: \<open>None\<close> when
  the template of the page throws, the left summand with the text of the error when the
  drawing of the file throws.
\<close>

record builtins =
  JSON_parse :: "string \<Rightarrow> json option"
  Date_parse :: "string \<Rightarrow> int option"
  toISOString :: "int \<Rightarrow> string"
  ToString :: "json \<Rightarrow> string"
  ToNumber :: "json \<Rightarrow> real option"
  LocalTime :: "int \<Rightarrow> int"
  UTC :: "int \<Rightarrow> int"
  now :: int
  HTML_document :: "json \<Rightarrow> json \<Rightarrow> string option"
  PDF_document :: "json \<Rightarrow> json \<Rightarrow> string + string"

definition ms_per_day :: int where
  "ms_per_day = 86400000"

text \<open>The local calendar day of an instant, counted from the epoch, and the time of day.\<close>

definition local_day :: "builtins \<Rightarrow> int \<Rightarrow> int" where
  "local_day bi t = LocalTime bi t div ms_per_day"


text \<open>
  \<open>d.setDate(d.getDate() + n)\<close>: the local time value of \<open>d\<close> moved by \<open>n\<close> calendar
  days, taken back to an instant.
\<close>

definition add_days :: "builtins \<Rightarrow> int \<Rightarrow> int \<Rightarrow> int" where
  "add_days bi t n = UTC bi (LocalTime bi t + n * ms_per_day)"

text \<open>
  \<open>d.setHours(h, m, 0, 0)\<close>: the local day of \<open>d\<close> at \<open>h:m:00.000\<close>, taken back to an
  instant; hours beyond 23 and minutes beyond 59 run over into the following hours and
  days.
\<close>

definition setHours :: "builtins \<Rightarrow> int \<Rightarrow> nat \<Rightarrow> nat \<Rightarrow> int" where
  "setHours bi t h m =
     UTC bi (local_day bi t * ms_per_day + int h * 3600000 + int m * 60000)"


text \<open>A template literal prints a string as it is.\<close>

definition template :: "builtins \<Rightarrow> json \<Rightarrow> string" where
  "template bi v = (case v of JStr s \<Rightarrow> s | _ \<Rightarrow> ToString bi v)"

text \<open>\<open>v < r\<close> for a number \<open>r\<close>: \<open>v\<close> is converted to a number, and \<open>NaN\<close> is below nothing.\<close>

definition to_number :: "builtins \<Rightarrow> json option \<Rightarrow> real option" where
  "to_number bi v =
     (case v of
        None \<Rightarrow> None
      | Some JNull \<Rightarrow> Some 0
      | Some (JBool b) \<Rightarrow> Some (if b then 1 else 0)
      | Some (JNum x) \<Rightarrow> Some x
      | Some w \<Rightarrow> ToNumber bi w)"

definition js_less :: "builtins \<Rightarrow> json option \<Rightarrow> real \<Rightarrow> bool" where
  "js_less bi v r = (case to_number bi v of None \<Rightarrow> False | Some x \<Rightarrow> x < r)"

definition js_greater :: "builtins \<Rightarrow> json option \<Rightarrow> real \<Rightarrow> bool" where
  "js_greater bi v r = (case to_number bi v of None \<Rightarrow> False | Some x \<Rightarrow> r < x)"

section \<open>The record store\<close>

text \<open>
  The \<open>entries\<close> table, as the interface \<open>Entry\<close> of \<open>lib/supabase.ts\<close> types its rows.
  Timestamps are instants. The store is the hosted database behind the query builder:
  a list of rows, the operations that currently fail, and the generator of row ids.
\<close>

record entry =
  entry_id :: string
  category :: string
  data :: json
  confidence :: real
  needs_review :: bool
  archived :: bool
  linked_entries :: "string list"
  created_at :: int
  updated_at :: int
  user_id :: "string option"

datatype db_op = Select | Insert | Update | Delete

datatype db_error = PGRST116 | DbFailure

record db =
  rows :: "entry list"
  failing :: "db_op \<Rightarrow> bool"
  gen_id :: "entry list \<Rightarrow> string"

text \<open>
  What a handler sends for a row: one optional JSON value for each column it sets.
  The store types the values as the interface \<open>Entry\<close> does and refuses a value of
  another type.
\<close>

record payload =
  p_category :: "json option"
  p_data :: "json option"
  p_confidence :: "json option"
  p_needs_review :: "json option"
  p_archived :: "json option"
  p_linked_entries :: "json option"
  p_updated_at :: "int option"
  p_user_id :: "string option"

definition no_payload :: payload where
  "no_payload =
     \<lparr>p_category = None, p_data = None, p_confidence = None, p_needs_review = None,
      p_archived = None, p_linked_entries = None, p_updated_at = None, p_user_id = None\<rparr>"

definition categories :: "string list" where
  "categories = [''people'', ''projects'', ''ideas'', ''tasks'']"

definition col_category :: "json \<Rightarrow> string option" where
  "col_category v = (case v of JStr s \<Rightarrow> if s \<in> set categories then Some s else None | _ \<Rightarrow> None)"

definition col_jsonb :: "json \<Rightarrow> json option" where
  "col_jsonb v = (case v of JNull \<Rightarrow> None | _ \<Rightarrow> Some v)"

definition col_float :: "json \<Rightarrow> real option" where
  "col_float v = (case v of JNum x \<Rightarrow> Some x | _ \<Rightarrow> None)"

definition col_bool :: "json \<Rightarrow> bool option" where
  "col_bool v = (case v of JBool b \<Rightarrow> Some b | _ \<Rightarrow> None)"

fun col_ids :: "json list \<Rightarrow> string list option" where
  "col_ids [] = Some []"
| "col_ids (JStr s # vs) = map_option ((#) s) (col_ids vs)"
| "col_ids (_ # vs) = None"

definition col_linked :: "json \<Rightarrow> string list option" where
  "col_linked v = (case v of JArr vs \<Rightarrow> col_ids vs | _ \<Rightarrow> None)"

text \<open>The row an insert makes, when every column has a value of its type.\<close>

definition new_row :: "payload \<Rightarrow> string \<Rightarrow> int \<Rightarrow> entry option" where
  "new_row p i t =
     (case (Option.bind (p_category p) col_category, Option.bind (p_data p) col_jsonb,
            Option.bind (p_confidence p) col_float, Option.bind (p_needs_review p) col_bool,
            Option.bind (p_archived p) col_bool, Option.bind (p_linked_entries p) col_linked) of
        (Some c, Some d, Some x, Some n, Some a, Some l) \<Rightarrow>
          Some \<lparr>entry_id = i, category = c, data = d, confidence = x, needs_review = n,
                archived = a, linked_entries = l, created_at = t,
                updated_at = (case p_updated_at p of None \<Rightarrow> t | Some u \<Rightarrow> u),
                user_id = p_user_id p\<rparr>
      | _ \<Rightarrow> None)"

text \<open>A column of an update is well typed when it is absent or has a value of its type.\<close>

definition col_ok :: "json option \<Rightarrow> (json \<Rightarrow> 'a option) \<Rightarrow> bool" where
  "col_ok v col = (case v of None \<Rightarrow> True | Some w \<Rightarrow> col w \<noteq> None)"

definition patch_ok :: "payload \<Rightarrow> bool" where
  "patch_ok p =
     (col_ok (p_category p) col_category \<and> col_ok (p_data p) col_jsonb \<and>
      col_ok (p_confidence p) col_float \<and> col_ok (p_needs_review p) col_bool \<and>
      col_ok (p_archived p) col_bool \<and> col_ok (p_linked_entries p) col_linked)"

definition set_col :: "json option \<Rightarrow> (json \<Rightarrow> 'a option) \<Rightarrow> 'a \<Rightarrow> 'a" where
  "set_col v col old = (case Option.bind v col of None \<Rightarrow> old | Some x \<Rightarrow> x)"

definition apply_patch :: "payload \<Rightarrow> entry \<Rightarrow> entry" where
  "apply_patch p e =
     e\<lparr>category := set_col (p_category p) col_category (category e),
       data := set_col (p_data p) col_jsonb (data e),
       confidence := set_col (p_confidence p) col_float (confidence e),
       needs_review := set_col (p_needs_review p) col_bool (needs_review e),
       archived := set_col (p_archived p) col_bool (archived e),
       linked_entries := set_col (p_linked_entries p) col_linked (linked_entries e),
       updated_at := (case p_updated_at p of None \<Rightarrow> updated_at e | Some u \<Rightarrow> u),
       user_id := (case p_user_id p of None \<Rightarrow> user_id e | Some u \<Rightarrow> Some u)\<rparr>"

text \<open>\<open>.select('*')\<close> under filters, and \<open>.single()\<close>, which wants exactly one row.\<close>

definition db_select :: "db \<Rightarrow> (entry \<Rightarrow> bool) \<Rightarrow> db_error + entry list" where
  "db_select d P = (if failing d Select then Inl DbFailure else Inr (filter P (rows d)))"

definition single :: "entry list \<Rightarrow> db_error + entry" where
  "single xs = (case xs of [x] \<Rightarrow> Inr x | _ \<Rightarrow> Inl PGRST116)"

definition db_select_single :: "db \<Rightarrow> (entry \<Rightarrow> bool) \<Rightarrow> db_error + entry" where
  "db_select_single d P = (case db_select d P of Inl e \<Rightarrow> Inl e | Inr xs \<Rightarrow> single xs)"

text \<open>\<open>.order('created_at', { ascending: false })\<close>; rows of one instant keep their order.\<close>

definition order_desc :: "entry list \<Rightarrow> entry list" where
  "order_desc xs = sort_key (\<lambda>e. - created_at e) xs"

text \<open>\<open>.insert(row).select().single()\<close>: the store gives the row its id and its timestamps.\<close>

definition db_insert :: "db \<Rightarrow> payload \<Rightarrow> int \<Rightarrow> (db_error + entry) \<times> db" where
  "db_insert d p t =
     (if failing d Insert then (Inl DbFailure, d)
      else case new_row p (gen_id d (rows d)) t of
             None \<Rightarrow> (Inl DbFailure, d)
           | Some r \<Rightarrow>
               if entry_id r \<in> entry_id ` set (rows d) then (Inl DbFailure, d)
               else (Inr r, d\<lparr>rows := rows d @ [r]\<rparr>))"

text \<open>\<open>.update(values)\<close> under filters: every row the filters select takes the values.\<close>

definition db_update :: "db \<Rightarrow> (entry \<Rightarrow> bool) \<Rightarrow> payload \<Rightarrow> (db_error + entry list) \<times> db" where
  "db_update d P p =
     (if failing d Update \<or> \<not> patch_ok p then (Inl DbFailure, d)
      else (Inr (map (apply_patch p) (filter P (rows d))),
            d\<lparr>rows := map (\<lambda>r. if P r then apply_patch p r else r) (rows d)\<rparr>))"

text \<open>
  \<open>.update(values) ... .select().single()\<close>: unless exactly one row is selected the
  request is answered with the error \<open>PGRST116\<close> and nothing is written.
\<close>

definition db_update_single :: "db \<Rightarrow> (entry \<Rightarrow> bool) \<Rightarrow> payload \<Rightarrow> (db_error + entry) \<times> db" where
  "db_update_single d P p =
     (case db_update d P p of
        (Inl e, _) \<Rightarrow> (Inl e, d)
      | (Inr [x], d') \<Rightarrow> (Inr x, d')
      | (Inr _, _) \<Rightarrow> (Inl PGRST116, d))"

text \<open>\<open>.delete()\<close> under filters.\<close>

definition db_delete :: "db \<Rightarrow> (entry \<Rightarrow> bool) \<Rightarrow> (db_error + unit) \<times> db" where
  "db_delete d P =
     (if failing d Delete then (Inl DbFailure, d)
      else (Inr (), d\<lparr>rows := filter (\<lambda>r. \<not> P r) (rows d)\<rparr>))"

section \<open>Sessions and responses\<close>

text \<open>What \<open>supabase.auth.getUser()\<close> returns: the id of the caller, if any, and an error flag.\<close>

record session =
  user :: "string option"
  authError :: bool

datatype resp_body =
    ErrorBody string
  | EntryBody entry
  | EntriesBody "entry list"
  | SuccessBody
  | CaptureBody entry bool "json option"
  | TaskChatBody string bool
  | ChatBody string bool "json option"
  | BulletsBody json
  | BulletsErrorBody string json
  | PlanBody entry "json option"
  | SavedBody bool
  | HtmlBody string
  | PdfBody string
  | ErrorDetailsBody string string
  | ErrorValueBody "json option"
  | DistanceBody "json option" "json option"
  | UncaughtBody

record response =
  status :: nat
  body :: resp_body

definition json_response :: "nat \<Rightarrow> resp_body \<Rightarrow> response" where
  "json_response n b = \<lparr>status = n, body = b\<rparr>"

definition unauthorized :: response where
  "unauthorized = json_response 401 (ErrorBody ''Unauthorized'')"

section \<open>The entry endpoints\<close>

text \<open>\<open>app/api/entries/route.ts\<close>: \<open>GET\<close>, the listing under the filters of the query string.\<close>

record search_params =
  sp_category :: "string option"
  sp_archived :: "string option"
  sp_needs_review :: "string option"

definition list_filter :: "string \<Rightarrow> search_params \<Rightarrow> entry \<Rightarrow> bool" where
  "list_filter uid sp e =
     (user_id e = Some uid \<and>
      (case sp_category sp of
         None \<Rightarrow> True
       | Some c \<Rightarrow> if c \<noteq> [] then category e = c else True) \<and>
      (if sp_archived sp = Some ''only'' then archived e = True
       else if sp_archived sp \<noteq> Some ''true'' then archived e = False
       else True) \<and>
      (if sp_needs_review sp = Some ''true'' then needs_review e = True else True))"

definition entries_GET :: "session \<Rightarrow> db \<Rightarrow> search_params \<Rightarrow> response" where
  "entries_GET sess d sp =
     (case user sess of
        None \<Rightarrow> unauthorized
      | Some uid \<Rightarrow>
          (case db_select d (list_filter uid sp) of
             Inl _ \<Rightarrow> json_response 500 (ErrorBody ''Failed to fetch entries'')
           | Inr xs \<Rightarrow> json_response 200 (EntriesBody (order_desc xs))))"

text \<open>
  \<open>POST\<close>, the manual creation. The body is what \<open>request.json()\<close> returns, \<open>None\<close>
  when it throws; reading a property of \<open>null\<close> throws as well.
\<close>

definition entries_POST :: "session \<Rightarrow> db \<Rightarrow> builtins \<Rightarrow> json option \<Rightarrow> response \<times> db" where
  "entries_POST sess d bi req =
     (case user sess of
        None \<Rightarrow> (unauthorized, d)
      | Some uid \<Rightarrow>
          (case req of
             None \<Rightarrow> (json_response 400 (ErrorBody ''Invalid request body''), d)
           | Some JNull \<Rightarrow> (json_response 400 (ErrorBody ''Invalid request body''), d)
           | Some b \<Rightarrow>
               (case db_insert d
                       \<lparr>p_category = get_prop b ''category'',
                        p_data = get_prop b ''data'',
                        p_confidence = Some (nullish_or (get_prop b ''confidence'') (JNum 1.0)),
                        p_needs_review = Some (nullish_or (get_prop b ''needs_review'') (JBool False)),
                        p_archived = Some (JBool False),
                        p_linked_entries = Some (nullish_or (get_prop b ''linked_entries'') (JArr [])),
                        p_updated_at = None,
                        p_user_id = Some uid\<rparr> (now bi) of
                  (Inl _, d') \<Rightarrow> (json_response 500 (ErrorBody ''Failed to create entry''), d')
                | (Inr r, d') \<Rightarrow> (json_response 200 (EntryBody r), d'))))"

text \<open>\<open>app/api/entries/[id]/route.ts\<close>: \<open>GET\<close>, \<open>PATCH\<close> and \<open>DELETE\<close> of one entry.\<close>

definition by_id :: "string \<Rightarrow> string \<Rightarrow> entry \<Rightarrow> bool" where
  "by_id i uid e = (entry_id e = i \<and> user_id e = Some uid)"

definition entry_GET :: "session \<Rightarrow> db \<Rightarrow> string \<Rightarrow> response" where
  "entry_GET sess d i =
     (case user sess of
        None \<Rightarrow> unauthorized
      | Some uid \<Rightarrow>
          (case db_select_single d (by_id i uid) of
             Inl PGRST116 \<Rightarrow> json_response 404 (ErrorBody ''Entry not found'')
           | Inl _ \<Rightarrow> json_response 500 (ErrorBody ''Failed to fetch entry'')
           | Inr r \<Rightarrow> json_response 200 (EntryBody r)))"

definition entry_PATCH ::
  "session \<Rightarrow> db \<Rightarrow> builtins \<Rightarrow> string \<Rightarrow> json option \<Rightarrow> response \<times> db" where
  "entry_PATCH sess d bi i req =
     (case user sess of
        None \<Rightarrow> (unauthorized, d)
      | Some uid \<Rightarrow>
          (case req of
             None \<Rightarrow> (json_response 400 (ErrorBody ''Invalid request body''), d)
           | Some JNull \<Rightarrow> (json_response 400 (ErrorBody ''Invalid request body''), d)
           | Some b \<Rightarrow>
               (case db_update_single d (by_id i uid)
                       (no_payload
                          \<lparr>p_updated_at := Some (now bi),
                           p_data := get_prop b ''data'',
                           p_category := get_prop b ''category'',
                           p_needs_review := get_prop b ''needs_review'',
                           p_archived := get_prop b ''archived'',
                           p_linked_entries := get_prop b ''linked_entries''\<rparr>) of
                  (Inl _, d') \<Rightarrow> (json_response 500 (ErrorBody ''Failed to update entry''), d')
                | (Inr r, d') \<Rightarrow> (json_response 200 (EntryBody r), d'))))"

definition entry_DELETE :: "session \<Rightarrow> db \<Rightarrow> string \<Rightarrow> response \<times> db" where
  "entry_DELETE sess d i =
     (case user sess of
        None \<Rightarrow> (unauthorized, d)
      | Some uid \<Rightarrow>
          (case db_delete d (by_id i uid) of
             (Inl _, d') \<Rightarrow> (json_response 500 (ErrorBody ''Failed to delete entry''), d')
           | (Inr _, d') \<Rightarrow> (json_response 200 SuccessBody, d')))"

section \<open>Replies of the language model\<close>

text \<open>
  A handler that calls the language model takes the outcome of the call as an argument:
  \<open>None\<close> when the call throws, otherwise the text of the first content block (with the
  handler's default for a block that is not text). The prompt is sent and not read again,
  so it is not built here; what can throw while it is built is a branch of the handler.
  Each handler returns, beside its response, the number of calls it made.
\<close>

definition newline :: string where
  "newline = [CHR 0x0A]"

definition any_char :: "char \<Rightarrow> bool" where
  "any_char c = True"

definition not_quote :: "char \<Rightarrow> bool" where
  "not_quote c = (c \<noteq> CHR 0x22)"

definition not_brace :: "char \<Rightarrow> bool" where
  \<open>not_brace c = (c \<noteq> CHR ''{'' \<and> c \<noteq> CHR ''}'')\<close>

text \<open>\<open>/^```(?:json)?\s*\n?/i\<close> and \<open>/\n?```\s*$/i\<close>\<close>

definition fence_open_rx :: rx where
  "fence_open_rx = seqs [Lit ''```'', Opt (lit_ci ''json''), Star is_space, Opt (Lit newline)]"

definition fence_close_rx :: rx where
  "fence_close_rx = seqs [Opt (Lit newline), Lit ''```'', Star is_space, Eos]"

definition strip_fences :: "string \<Rightarrow> string" where
  "strip_fences rawText =
     (let s1 = rx_remove (rx_exec_start fence_open_rx rawText) rawText;
          s2 = rx_remove (rx_exec fence_close_rx s1) s1
      in trim s2)"

section \<open>Classify and create\<close>

text \<open>The route \<open>/api/capture\<close>, \<open>POST\<close>.\<close>

text \<open>\<open>v.length\<close>\<close>

definition js_length :: "json \<Rightarrow> json option" where
  "js_length v =
     (case v of
        JArr xs \<Rightarrow> Some (JNum (real (length xs)))
      | JStr s \<Rightarrow> Some (JNum (real (length s)))
      | JObj m \<Rightarrow> m ''length''
      | _ \<Rightarrow> None)"

text \<open>
  \<open>mentionedPeople.some((mentioned) => name?.includes(mentioned.toLowerCase()))\<close>;
  \<open>None\<close> stands for a \<open>TypeError\<close>. Without a name no element is looked at.
\<close>

fun some_mentioned :: "string \<Rightarrow> json list \<Rightarrow> bool option" where
  "some_mentioned name [] = Some False"
| "some_mentioned name (JStr m # ms) =
     (if str_includes name (toLowerCase m) then Some True else some_mentioned name ms)"
| "some_mentioned name (_ # ms) = None"

definition keep_person :: "json \<Rightarrow> entry \<Rightarrow> bool option" where
  "keep_person mp e =
     (case data e of
        JNull \<Rightarrow> None
      | dv \<Rightarrow>
          (case get_prop dv ''name'' of
             None \<Rightarrow> (case mp of JArr ms \<Rightarrow> Some False | _ \<Rightarrow> None)
           | Some JNull \<Rightarrow> (case mp of JArr ms \<Rightarrow> Some False | _ \<Rightarrow> None)
           | Some (JStr n) \<Rightarrow>
               (case mp of JArr ms \<Rightarrow> some_mentioned (toLowerCase n) ms | _ \<Rightarrow> None)
           | Some _ \<Rightarrow> None))"

fun people_filter :: "json \<Rightarrow> entry list \<Rightarrow> entry list option" where
  "people_filter mp [] = Some []"
| "people_filter mp (e # es) =
     (case keep_person mp e of
        None \<Rightarrow> None
      | Some k \<Rightarrow> map_option (\<lambda>r. if k then e # r else r) (people_filter mp es))"

definition link_people :: "string \<Rightarrow> db \<Rightarrow> builtins \<Rightarrow> json \<Rightarrow> string list option" where
  "link_people uid d bi result =
     (case get_prop result ''mentionedPeople'' of
        None \<Rightarrow> Some []
      | Some mp \<Rightarrow>
          if truthy (Some mp) \<and> js_greater bi (js_length mp) 0 then
            (case db_select d
                    (\<lambda>e. category e = ''people'' \<and> archived e = False \<and> user_id e = Some uid) of
               Inl _ \<Rightarrow> Some []
             | Inr peopleEntries \<Rightarrow> map_option (map entry_id) (people_filter mp peopleEntries))
          else Some [])"

definition internal_error :: response where
  "internal_error = json_response 500 (ErrorBody ''Internal server error'')"

definition capture_store ::
  "string \<Rightarrow> db \<Rightarrow> builtins \<Rightarrow> json \<Rightarrow> response \<times> db" where
  "capture_store uid d bi result =
     (case result of
        JNull \<Rightarrow> (internal_error, d)
      | _ \<Rightarrow>
          (let needsReview = js_less bi (get_prop result ''confidence'') 0.6
           in case link_people uid d bi result of
                None \<Rightarrow> (internal_error, d)
              | Some linkedEntries \<Rightarrow>
                  (case db_insert d
                          \<lparr>p_category = get_prop result ''category'',
                           p_data = get_prop result ''data'',
                           p_confidence = get_prop result ''confidence'',
                           p_needs_review = Some (JBool needsReview),
                           p_archived = Some (JBool False),
                           p_linked_entries = Some (JArr (map JStr linkedEntries)),
                           p_updated_at = None,
                           p_user_id = Some uid\<rparr> (now bi) of
                     (Inl _, d') \<Rightarrow> (json_response 500 (ErrorBody ''Failed to save entry''), d')
                   | (Inr newEntry, d') \<Rightarrow>
                       (json_response 200
                          (CaptureBody newEntry needsReview (get_prop result ''mentionedPeople'')),
                        d'))))"

definition capture_POST ::
  "session \<Rightarrow> db \<Rightarrow> builtins \<Rightarrow> json option \<Rightarrow> string option \<Rightarrow> response \<times> db \<times> nat" where
  "capture_POST sess d bi req reply =
     (case user sess of
        None \<Rightarrow> (unauthorized, d, 0)
      | Some uid \<Rightarrow>
          (case req of
             None \<Rightarrow> (internal_error, d, 0)
           | Some JNull \<Rightarrow> (internal_error, d, 0)
           | Some b \<Rightarrow>
               (case get_prop b ''text'' of
                  Some (JStr text) \<Rightarrow>
                    if text = [] then (json_response 400 (ErrorBody ''Text is required''), d, 0)
                    else
                      (case reply of
                         None \<Rightarrow> (internal_error, d, 1)
                       | Some rawText \<Rightarrow>
                           (case JSON_parse bi (strip_fences rawText) of
                              None \<Rightarrow>
                                (json_response 500 (ErrorBody ''Failed to parse AI response''), d, 1)
                            | Some result \<Rightarrow>
                                (case capture_store uid d bi result of (r, d') \<Rightarrow> (r, d', 1))))
                | _ \<Rightarrow> (json_response 400 (ErrorBody ''Text is required''), d, 0))))"

section \<open>The digest\<close>

text \<open>
  The route \<open>/api/summary\<close>, \<open>GET\<close>. The source holds two versions of the handler; they
  differ in what follows the model call: the first parses the reply as it is and falls
  back to three fixed bullets, the second strips code fences and falls back to none.
\<close>

definition open_entries :: "db \<Rightarrow> string \<Rightarrow> string \<Rightarrow> nat \<Rightarrow> entry list" where
  "open_entries d uid cat n =
     (case db_select d (\<lambda>e. category e = cat \<and> archived e = False \<and> user_id e = Some uid) of
        Inl _ \<Rightarrow> []
      | Inr xs \<Rightarrow> take n (order_desc xs))"

definition summary_failed :: response where
  "summary_failed = json_response 500 (BulletsErrorBody ''Failed to generate summary'' (JArr []))"

definition fallback_bullets :: json where
  "fallback_bullets =
     JArr [JStr ''Review your pending tasks'', JStr ''Check project progress'',
           JStr ''Capture new ideas'']"

definition summary_GET_with ::
  "(string \<Rightarrow> json) \<Rightarrow> session \<Rightarrow> db \<Rightarrow> string option \<Rightarrow> response \<times> nat" where
  "summary_GET_with parse_bullets sess d reply =
     (case user sess of
        None \<Rightarrow> (json_response 200 (BulletsBody (JArr [])), 0)
      | Some uid \<Rightarrow>
          (let tasks = open_entries d uid ''tasks'' 10;
               projects = open_entries d uid ''projects'' 5
           in if tasks = [] \<and> projects = [] then (json_response 200 (BulletsBody (JArr [])), 0)
              else if list_ex (\<lambda>e. data e = JNull) (tasks @ projects) then (summary_failed, 0)
              else (case reply of
                      None \<Rightarrow> (summary_failed, 1)
                    | Some rawText \<Rightarrow> (json_response 200 (BulletsBody (parse_bullets rawText)), 1))))"

definition summary_GET_1 :: "session \<Rightarrow> db \<Rightarrow> builtins \<Rightarrow> string option \<Rightarrow> response \<times> nat" where
  "summary_GET_1 sess d bi reply =
     summary_GET_with
       (\<lambda>responseText. case JSON_parse bi responseText of None \<Rightarrow> fallback_bullets | Some v \<Rightarrow> v)
       sess d reply"

definition summary_GET :: "session \<Rightarrow> db \<Rightarrow> builtins \<Rightarrow> string option \<Rightarrow> response \<times> nat" where
  "summary_GET sess d bi reply =
     summary_GET_with
       (\<lambda>rawText. case JSON_parse bi (strip_fences rawText) of None \<Rightarrow> JArr [] | Some v \<Rightarrow> v)
       sess d reply"

section \<open>The advisory chats\<close>

text \<open>
  The request body of a chat is typed by the interface \<open>ChatRequest\<close> of its route; only
  its \<open>message\<close> is read once the prompt is built, so a handler takes the message,
  \<open>None\<close> when \<open>request.json()\<close> throws.
\<close>

definition chat_failed :: response where
  "chat_failed = json_response 500 (ErrorBody ''Failed to process chat message'')"

text \<open>\<open>o.k = v\<close> and \<open>delete o.k\<close> on an object.\<close>

definition set_prop :: "json \<Rightarrow> string \<Rightarrow> json \<Rightarrow> json" where
  "set_prop v k w = (case v of JObj m \<Rightarrow> JObj (m(k \<mapsto> w)) | _ \<Rightarrow> v)"

definition delete_prop :: "json \<Rightarrow> string \<Rightarrow> json" where
  "delete_prop v k = (case v of JObj m \<Rightarrow> JObj (m(k := None)) | _ \<Rightarrow> v)"

text \<open>\<open>.update({ data: updatedData, updated_at: new Date().toISOString() })\<close>\<close>

definition data_payload :: "builtins \<Rightarrow> json \<Rightarrow> payload" where
  "data_payload bi updatedData = no_payload\<lparr>p_data := Some updatedData, p_updated_at := Some (now bi)\<rparr>"

subsection \<open>The task chat\<close>

text \<open>
  \<open>app/api/task/[id]/chat/route.ts\<close>. The pattern of an action block:
  \<open>/\{"action":\s*"[^"]+",\s*"(?:updates|url)":\s*\{[^{}]*\}\s*\}|\{"action":\s*"[^"]+",\s*"url":\s*"[^"]+"\s*\}/\<close>
\<close>

definition task_action_rx :: rx where
  \<open>task_action_rx =
     Alt (seqs [Lit ''{"action":'', Star is_space, Lit ''"'', plus not_quote, Lit ''",'',
                Star is_space, Lit ''"'', Alt (Lit ''updates'') (Lit ''url''), Lit ''":'',
                Star is_space, Lit ''{'', Star not_brace, Lit ''}'', Star is_space, Lit ''}''])
         (seqs [Lit ''{"action":'', Star is_space, Lit ''"'', plus not_quote, Lit ''",'',
                Star is_space, Lit ''"url":'', Star is_space, Lit ''"'', plus not_quote,
                Lit ''"'', Star is_space, Lit ''}''])\<close>

text \<open>\<open>/(\d{1,2})(?::(\d{2}))?\s*(am|pm)?/\<close>\<close>

definition time_rx :: rx where
  "time_rx =
     seqs [Grp 1 (Seq (Cls is_digit) (Opt (Cls is_digit))),
           Opt (Seq (Lit '':'') (Grp 2 (Seq (Cls is_digit) (Cls is_digit)))),
           Star is_space,
           Opt (Grp 3 (Alt (Lit ''am'') (Lit ''pm'')))]"

text \<open>The hour and the minute that a match of the time pattern stands for.\<close>

definition match_clock :: "rx_match \<Rightarrow> nat \<times> nat" where
  "match_clock timeMatch =
     (let hours0 = (case group timeMatch 1 of None \<Rightarrow> 0 | Some h \<Rightarrow> parseInt h);
          minutes = (case group timeMatch 2 of None \<Rightarrow> 0 | Some m \<Rightarrow> parseInt m);
          meridiem = group timeMatch 3;
          hours1 = (if meridiem = Some ''pm'' \<and> hours0 < 12 then hours0 + 12 else hours0);
          hours = (if meridiem = Some ''am'' \<and> hours1 = 12 then 0 else hours1)
      in (hours, minutes))"

definition parseNaturalDate :: "builtins \<Rightarrow> string \<Rightarrow> string option" where
  "parseNaturalDate bi input =
     (let lowered = trim (toLowerCase input)
      in if lowered = ''today'' then Some (toISOString bi (now bi))
         else if lowered = ''tomorrow'' then Some (toISOString bi (add_days bi (now bi) 1))
         else if lowered = ''next week'' then Some (toISOString bi (add_days bi (now bi) 7))
         else
           (case rx_exec time_rx lowered of
              Some timeMatch \<Rightarrow>
                (case match_clock timeMatch of
                   (hours, minutes) \<Rightarrow>
                     Some (toISOString bi
                             (setHours bi
                                (if str_includes lowered ''tomorrow'' then add_days bi (now bi) 1
                                 else now bi)
                                hours minutes)))
            | None \<Rightarrow>
                (case Date_parse bi input of
                   Some parsed \<Rightarrow> Some (toISOString bi parsed)
                 | None \<Rightarrow> None)))"

text \<open>
  What the handler makes of the \<open>updates\<close> of an action before it merges them: the notes
  are appended to the stored ones when the message says so, and a deadline is replaced by
  its resolved date when there is one. \<open>None\<close> stands for the \<open>TypeError\<close> of a deadline
  that is not a string.
\<close>

definition append_notes :: "builtins \<Rightarrow> json \<Rightarrow> string \<Rightarrow> json \<Rightarrow> json" where
  "append_notes bi taskData message updates =
     (if truthy (get_prop updates ''notes'') \<and> truthy (get_prop taskData ''notes'') \<and>
         str_includes (toLowerCase message) ''add to notes''
      then (case (get_prop taskData ''notes'', get_prop updates ''notes'') of
              (Some old, Some new) \<Rightarrow>
                set_prop updates ''notes'' (JStr (template bi old @ newline @ template bi new))
            | _ \<Rightarrow> updates)
      else updates)"

definition resolve_deadline :: "builtins \<Rightarrow> json \<Rightarrow> json option" where
  "resolve_deadline bi updates =
     (if truthy (get_prop updates ''deadline'') then
        (case get_prop updates ''deadline'' of
           Some (JStr s) \<Rightarrow>
             (case parseNaturalDate bi s of
                Some parsedDate \<Rightarrow>
                  if parsedDate \<noteq> [] then Some (set_prop updates ''deadline'' (JStr parsedDate))
                  else Some updates
              | None \<Rightarrow> Some updates)
         | _ \<Rightarrow> None)
      else Some updates)"

definition is_update :: "json \<Rightarrow> bool" where
  "is_update action =
     (get_prop action ''action'' = Some (JStr ''update'') \<and> truthy (get_prop action ''updates''))"

definition the_updates :: "json \<Rightarrow> json" where
  "the_updates action = (case get_prop action ''updates'' of None \<Rightarrow> JNull | Some u \<Rightarrow> u)"

definition task_apply_action ::
  "db \<Rightarrow> builtins \<Rightarrow> string \<Rightarrow> string \<Rightarrow> json \<Rightarrow> string \<Rightarrow> string \<Rightarrow> string \<Rightarrow>
   response \<times> db" where
  "task_apply_action d bi taskId uid taskData message assistantMessage found =
     (let unparsed = (json_response 200 (TaskChatBody assistantMessage False), d);
          finalResponse = trim (remove_first assistantMessage found)
      in case JSON_parse bi found of
           None \<Rightarrow> unparsed
         | Some JNull \<Rightarrow> unparsed
         | Some action \<Rightarrow>
             if is_update action then
               (case resolve_deadline bi
                       (append_notes bi taskData message (the_updates action)) of
                  None \<Rightarrow> unparsed
                | Some updates \<Rightarrow>
                    (case db_update d (by_id taskId uid)
                            (data_payload bi (spread taskData updates)) of
                       (Inl _, d') \<Rightarrow> (json_response 200 (TaskChatBody finalResponse False), d')
                     | (Inr _, d') \<Rightarrow> (json_response 200 (TaskChatBody finalResponse True), d')))
             else (json_response 200 (TaskChatBody finalResponse False), d))"

definition task_chat_POST ::
  "session \<Rightarrow> db \<Rightarrow> builtins \<Rightarrow> string \<Rightarrow> string option \<Rightarrow> string option \<Rightarrow>
   response \<times> db \<times> nat" where
  "task_chat_POST sess d bi taskId req reply =
     (case (if authError sess then None else user sess) of
        None \<Rightarrow> (unauthorized, d, 0)
      | Some uid \<Rightarrow>
          (case db_select_single d (by_id taskId uid) of
             Inl _ \<Rightarrow> (json_response 404 (ErrorBody ''Task not found''), d, 0)
           | Inr task \<Rightarrow>
               if category task \<noteq> ''tasks'' then
                 (json_response 400 (ErrorBody ''Entry is not a task''), d, 0)
               else
                 (case req of
                    None \<Rightarrow> (chat_failed, d, 0)
                  | Some message \<Rightarrow>
                      if data task = JNull \<or>
                         list_ex (\<lambda>t. data t = JNull)
                           (case db_select d
                                   (\<lambda>e. category e = ''tasks'' \<and> user_id e = Some uid \<and>
                                        entry_id e \<noteq> taskId \<and> archived e = False) of
                              Inl _ \<Rightarrow> []
                            | Inr otherTasks \<Rightarrow> otherTasks)
                      then (chat_failed, d, 0)
                      else
                        (case reply of
                           None \<Rightarrow> (chat_failed, d, 1)
                         | Some assistantMessage \<Rightarrow>
                             (case rx_exec task_action_rx assistantMessage of
                                None \<Rightarrow>
                                  (json_response 200 (TaskChatBody assistantMessage False), d, 1)
                              | Some jsonMatch \<Rightarrow>
                                  (case task_apply_action d bi taskId uid (data task) message
                                          assistantMessage (matched jsonMatch) of
                                     (r, d') \<Rightarrow> (r, d', 1)))))))"

subsection \<open>The project chat\<close>

text \<open>
  \<open>app/api/projects/[id]/chat/route.ts\<close>. The three patterns, tried in this order:
  \<open>/\{"action":\s*"update",\s*"updates":\s*\{[^{}]*\}\}/\<close>,
  \<open>/\{"action":\s*"[^"]+",\s*"updates":\s*\{[^{}]*\}\s*\}/\<close> and
  \<open>/```json\s*(\{[\s\S]*?\})\s*```/\<close>.
\<close>

definition jsonPatterns :: "rx list" where
  \<open>jsonPatterns =
     [seqs [Lit ''{"action":'', Star is_space, Lit ''"update",'', Star is_space,
            Lit ''"updates":'', Star is_space, Lit ''{'', Star not_brace, Lit ''}}''],
      seqs [Lit ''{"action":'', Star is_space, Lit ''"'', plus not_quote, Lit ''",'',
            Star is_space, Lit ''"updates":'', Star is_space, Lit ''{'', Star not_brace,
            Lit ''}'', Star is_space, Lit ''}''],
      seqs [Lit ''```json'', Star is_space,
            Grp 1 (seqs [Lit ''{'', StarLazy any_char, Lit ''}'']), Star is_space,
            Lit ''```'']]\<close>

text \<open>The loop over the patterns: the first that matches, with \<open>match[1] || match[0]\<close>.\<close>

fun first_match :: "rx list \<Rightarrow> string \<Rightarrow> (rx_match \<times> string) option" where
  "first_match [] s = None"
| "first_match (pattern # rest) s =
     (case rx_exec pattern s of
        None \<Rightarrow> first_match rest s
      | Some m \<Rightarrow>
          Some (m, case group m 1 of
                     None \<Rightarrow> matched m
                   | Some g \<Rightarrow> if g \<noteq> [] then g else matched m))"

text \<open>\<open>/```json\s*|\s*```/g\<close>\<close>

definition fence_rx :: rx where
  "fence_rx = Alt (Seq (Lit ''```json'') (Star is_space)) (Seq (Star is_space) (Lit ''```''))"

definition allowed_status :: "json list" where
  "allowed_status = [JStr ''active'', JStr ''on-hold'', JStr ''completed'']"

definition validate_status :: "json \<Rightarrow> json" where
  "validate_status updates =
     (case get_prop updates ''status'' of
        None \<Rightarrow> updates
      | Some st \<Rightarrow>
          if truthy (Some st) \<and> st \<notin> set allowed_status then delete_prop updates ''status''
          else updates)"

definition project_apply_action ::
  "db \<Rightarrow> builtins \<Rightarrow> string \<Rightarrow> string \<Rightarrow> json \<Rightarrow> string \<Rightarrow> string \<Rightarrow> string \<Rightarrow>
   response \<times> db" where
  "project_apply_action d bi projectId uid projectData assistantMessage found matchedJson =
     (let unparsed = (json_response 200 (ChatBody assistantMessage False None), d);
          finalResponse = trim (remove_first assistantMessage found);
          cleanJson = trim (rx_remove_all fence_rx matchedJson)
      in case JSON_parse bi cleanJson of
           None \<Rightarrow> unparsed
         | Some JNull \<Rightarrow> unparsed
         | Some action \<Rightarrow>
             if is_update action then
               (let updates = validate_status (the_updates action)
                in case db_update d (by_id projectId uid)
                          (data_payload bi (spread projectData updates)) of
                     (Inl _, d') \<Rightarrow>
                       (json_response 200 (ChatBody finalResponse False (Some updates)), d')
                   | (Inr _, d') \<Rightarrow>
                       (json_response 200 (ChatBody finalResponse True (Some updates)), d'))
             else (json_response 200 (ChatBody finalResponse False None), d))"

definition project_chat_POST ::
  "session \<Rightarrow> db \<Rightarrow> builtins \<Rightarrow> string \<Rightarrow> string option \<Rightarrow> string option \<Rightarrow>
   response \<times> db \<times> nat" where
  "project_chat_POST sess d bi projectId req reply =
     (case (if authError sess then None else user sess) of
        None \<Rightarrow> (unauthorized, d, 0)
      | Some uid \<Rightarrow>
          (case db_select_single d (by_id projectId uid) of
             Inl _ \<Rightarrow> (json_response 404 (ErrorBody ''Project not found''), d, 0)
           | Inr project \<Rightarrow>
               if category project \<noteq> ''projects'' then
                 (json_response 400 (ErrorBody ''Entry is not a project''), d, 0)
               else
                 (case req of
                    None \<Rightarrow> (chat_failed, d, 0)
                  | Some message \<Rightarrow>
                      if data project = JNull then (chat_failed, d, 0)
                      else
                        (case reply of
                           None \<Rightarrow> (chat_failed, d, 1)
                         | Some assistantMessage \<Rightarrow>
                             (case first_match jsonPatterns assistantMessage of
                                None \<Rightarrow>
                                  (json_response 200
                                     (ChatBody assistantMessage False None), d, 1)
                              | Some (jsonMatch, matchedJson) \<Rightarrow>
                                  (case project_apply_action d bi projectId uid (data project)
                                          assistantMessage (matched jsonMatch) matchedJson of
                                     (r, d') \<Rightarrow> (r, d', 1)))))))"

subsection \<open>The idea chat\<close>

text \<open>
  \<open>app/api/ideas/[id]/chat/route.ts\<close>: the same three patterns and the same steps as the
  project chat, without a check of the updates.
\<close>

definition idea_apply_action ::
  "db \<Rightarrow> builtins \<Rightarrow> string \<Rightarrow> string \<Rightarrow> json \<Rightarrow> string \<Rightarrow> string \<Rightarrow> string \<Rightarrow>
   response \<times> db" where
  "idea_apply_action d bi ideaId uid ideaData assistantMessage found matchedJson =
     (let unparsed = (json_response 200 (ChatBody assistantMessage False None), d);
          finalResponse = trim (remove_first assistantMessage found);
          cleanJson = trim (rx_remove_all fence_rx matchedJson)
      in case JSON_parse bi cleanJson of
           None \<Rightarrow> unparsed
         | Some JNull \<Rightarrow> unparsed
         | Some action \<Rightarrow>
             if is_update action then
               (let updates = the_updates action
                in case db_update d (by_id ideaId uid)
                          (data_payload bi (spread ideaData updates)) of
                     (Inl _, d') \<Rightarrow>
                       (json_response 200 (ChatBody finalResponse False (Some updates)), d')
                   | (Inr _, d') \<Rightarrow>
                       (json_response 200 (ChatBody finalResponse True (Some updates)), d'))
             else (json_response 200 (ChatBody finalResponse False None), d))"

definition idea_chat_POST ::
  "session \<Rightarrow> db \<Rightarrow> builtins \<Rightarrow> string \<Rightarrow> string option \<Rightarrow> string option \<Rightarrow>
   response \<times> db \<times> nat" where
  "idea_chat_POST sess d bi ideaId req reply =
     (case (if authError sess then None else user sess) of
        None \<Rightarrow> (unauthorized, d, 0)
      | Some uid \<Rightarrow>
          (case db_select_single d (by_id ideaId uid) of
             Inl _ \<Rightarrow> (json_response 404 (ErrorBody ''Idea not found''), d, 0)
           | Inr idea \<Rightarrow>
               if category idea \<noteq> ''ideas'' then
                 (json_response 400 (ErrorBody ''Entry is not an idea''), d, 0)
               else
                 (case req of
                    None \<Rightarrow> (chat_failed, d, 0)
                  | Some message \<Rightarrow>
                      if data idea = JNull then (chat_failed, d, 0)
                      else
                        (case reply of
                           None \<Rightarrow> (chat_failed, d, 1)
                         | Some assistantMessage \<Rightarrow>
                             (case first_match jsonPatterns assistantMessage of
                                None \<Rightarrow>
                                  (json_response 200 (ChatBody assistantMessage False None), d, 1)
                              | Some (jsonMatch, matchedJson) \<Rightarrow>
                                  (case idea_apply_action d bi ideaId uid (data idea)
                                          assistantMessage (matched jsonMatch) matchedJson of
                                     (r, d') \<Rightarrow> (r, d', 1)))))))"

section \<open>Suggestions, the saved flag, the export and the distance\<close>

text \<open>
  \<open>x?.k\<close> and \<open>x?.[0]\<close>: \<open>undefined\<close> when \<open>x\<close> is \<open>null\<close> or \<open>undefined\<close>. The first
  element of an array, the first code unit of a string, the property \<open>0\<close> of an object.
\<close>

definition opt_prop :: "json option \<Rightarrow> string \<Rightarrow> json option" where
  "opt_prop x k = (case x of None \<Rightarrow> None | Some JNull \<Rightarrow> None | Some v \<Rightarrow> get_prop v k)"

definition opt_first :: "json option \<Rightarrow> json option" where
  "opt_first x =
     (case x of
        Some (JArr (v # vs)) \<Rightarrow> Some v
      | Some (JStr (c # cs)) \<Rightarrow> Some (JStr [c])
      | Some (JObj m) \<Rightarrow> m ''0''
      | _ \<Rightarrow> None)"

text \<open>\<open>a || b\<close>\<close>

definition js_or :: "json option \<Rightarrow> json option \<Rightarrow> json option" where
  "js_or a b = (if truthy a then a else b)"

subsection \<open>The suggestions for an idea\<close>

text \<open>
  The route \<open>/api/ideas/[id]/suggestions\<close>, \<open>GET\<close>. The reply stands for the text of
  the first content block, \<open>{}\<close> for a block that is not text.
\<close>

definition idea_suggestions_GET ::
  "session \<Rightarrow> db \<Rightarrow> builtins \<Rightarrow> string \<Rightarrow> string option \<Rightarrow> response \<times> nat" where
  "idea_suggestions_GET sess d bi i reply =
     (case user sess of
        None \<Rightarrow> (unauthorized, 0)
      | Some uid \<Rightarrow>
          (case db_select_single d
                  (\<lambda>e. entry_id e = i \<and> user_id e = Some uid \<and> category e = ''ideas'') of
             Inl _ \<Rightarrow> (json_response 404 (ErrorBody ''Idea not found''), 0)
           | Inr entry \<Rightarrow>
               if data entry = JNull then
                 (json_response 500 (ErrorBody ''Failed to generate suggestions''), 0)
               else
                 (case reply of
                    None \<Rightarrow> (json_response 500 (ErrorBody ''Failed to generate suggestions''), 1)
                  | Some responseText \<Rightarrow>
                      (case JSON_parse bi responseText of
                         None \<Rightarrow> (json_response 500 (ErrorBody ''Failed to parse AI response''), 1)
                       | Some suggestions \<Rightarrow>
                           (json_response 200 (PlanBody entry (Some suggestions)), 1)))))"

subsection \<open>The suggestions for a project\<close>

text \<open>
  The route \<open>/api/projects/[id]/suggestions\<close>, \<open>GET\<close>: the plan kept in the data of
  the project is returned unless the query asks for a new one; a new plan is written to the
  data, and what the store answers to that is not looked at. Reading the kept plan
  stands outside the \<open>try\<close> of the handler.
\<close>

definition uncaught :: response where
  "uncaught = json_response 500 UncaughtBody"

definition project_suggestions_GET ::
  "session \<Rightarrow> db \<Rightarrow> builtins \<Rightarrow> string \<Rightarrow> string option \<Rightarrow> string option \<Rightarrow>
   response \<times> db \<times> nat" where
  "project_suggestions_GET sess d bi i regenerate reply =
     (case user sess of
        None \<Rightarrow> (unauthorized, d, 0)
      | Some uid \<Rightarrow>
          (case db_select_single d
                  (\<lambda>e. entry_id e = i \<and> user_id e = Some uid \<and> category e = ''projects'') of
             Inl _ \<Rightarrow> (json_response 404 (ErrorBody ''Project not found''), d, 0)
           | Inr entry \<Rightarrow>
               if data entry = JNull then (uncaught, d, 0)
               else if truthy (get_prop (data entry) ''suggestions'') \<and>
                       regenerate \<noteq> Some ''true''
               then (json_response 200 (PlanBody entry (get_prop (data entry) ''suggestions'')),
                     d, 0)
               else
                 (case reply of
                    None \<Rightarrow>
                      (json_response 500 (ErrorBody ''Failed to generate suggestions''), d, 1)
                  | Some rawText \<Rightarrow>
                      (case JSON_parse bi (strip_fences rawText) of
                         None \<Rightarrow>
                           (json_response 500 (ErrorBody ''Failed to parse AI response''), d, 1)
                       | Some suggestions \<Rightarrow>
                           (case db_update d (by_id i uid)
                                   (data_payload bi
                                      (spread (data entry)
                                         (JObj [''suggestions'' \<mapsto> suggestions]))) of
                              (_, d') \<Rightarrow>
                                (json_response 200 (PlanBody entry (Some suggestions)), d', 1))))))"

subsection \<open>The saved flag of an idea\<close>

text \<open>The route \<open>/api/ideas/[id]/save\<close>, \<open>POST\<close>: \<open>saved\<close> becomes the negation of what it was.\<close>

definition idea_save_POST :: "session \<Rightarrow> db \<Rightarrow> builtins \<Rightarrow> string \<Rightarrow> response \<times> db" where
  "idea_save_POST sess d bi ideaId =
     (case (if authError sess then None else user sess) of
        None \<Rightarrow> (unauthorized, d)
      | Some uid \<Rightarrow>
          (case db_select_single d (by_id ideaId uid) of
             Inl _ \<Rightarrow> (json_response 404 (ErrorBody ''Idea not found''), d)
           | Inr idea \<Rightarrow>
               if category idea \<noteq> ''ideas'' then
                 (json_response 400 (ErrorBody ''Entry is not an idea''), d)
               else if data idea = JNull then
                 (json_response 500 (ErrorBody ''Failed to toggle save status''), d)
               else
                 (let newSavedState = (\<not> truthy (get_prop (data idea) ''saved''))
                  in case db_update d (by_id ideaId uid)
                            (data_payload bi
                               (spread (data idea) (JObj [''saved'' \<mapsto> JBool newSavedState]))) of
                       (Inl _, d') \<Rightarrow> (json_response 500 (ErrorBody ''Failed to update''), d')
                     | (Inr _, d') \<Rightarrow> (json_response 200 (SavedBody newSavedState), d'))))"

subsection \<open>The export of the plan of an idea\<close>

text \<open>
  The plan that stands in for a reply or a form field that does not parse, with the
  summary that the handler gives it.
\<close>

definition fallback_plan :: "string \<Rightarrow> json" where
  "fallback_plan summary =
     JObj [''summary'' \<mapsto> JStr summary, ''steps'' \<mapsto> JArr [], ''resources'' \<mapsto> JArr [],
           ''considerations'' \<mapsto> JArr [], ''timeEstimate'' \<mapsto> JStr ''Unknown'']"

definition export_failed :: response where
  "export_failed = json_response 500 (ErrorBody ''Failed to generate PDF'')"

text \<open>
  The export as a page that prints itself, \<open>GET\<close>. The reply stands for the text of the
  first content block, the empty text for a block that is not text.
\<close>

definition idea_export_GET ::
  "session \<Rightarrow> db \<Rightarrow> builtins \<Rightarrow> string \<Rightarrow> string option \<Rightarrow> response \<times> nat" where
  "idea_export_GET sess d bi ideaId reply =
     (case (if authError sess then None else user sess) of
        None \<Rightarrow> (unauthorized, 0)
      | Some uid \<Rightarrow>
          (case db_select_single d (by_id ideaId uid) of
             Inl _ \<Rightarrow> (json_response 404 (ErrorBody ''Idea not found''), 0)
           | Inr idea \<Rightarrow>
               if data idea = JNull then (export_failed, 0)
               else
                 (case reply of
                    None \<Rightarrow> (export_failed, 1)
                  | Some responseText \<Rightarrow>
                      (let suggestions =
                             (case JSON_parse bi responseText of
                                None \<Rightarrow> fallback_plan ''Unable to generate summary''
                              | Some v \<Rightarrow> v)
                       in case HTML_document bi (data idea) suggestions of
                            None \<Rightarrow> (export_failed, 1)
                          | Some html \<Rightarrow> (json_response 200 (HtmlBody html), 1)))))"

text \<open>\<open>app/api/ideas/[id]/pdf/route.ts\<close>: \<open>generatePDFResponse\<close>, which catches what the drawing throws.\<close>

definition generatePDFResponse :: "builtins \<Rightarrow> json \<Rightarrow> json \<Rightarrow> response" where
  "generatePDFResponse bi ideaData suggestions =
     (case PDF_document bi ideaData suggestions of
        Inl details \<Rightarrow> json_response 500 (ErrorDetailsBody ''PDF generation failed'' details)
      | Inr pdfBytes \<Rightarrow> json_response 200 (PdfBody pdfBytes))"

text \<open>
  \<open>POST\<close>, with the plan in the field \<open>suggestions\<close> of the form. The form is \<open>None\<close>
  when \<open>request.formData()\<close> throws, and holds the text of the field if there is one; a
  missing field is \<open>null\<close>, which \<open>JSON.parse\<close> reads as the text \<open>null\<close>.
\<close>

definition idea_pdf_POST ::
  "session \<Rightarrow> db \<Rightarrow> builtins \<Rightarrow> string \<Rightarrow> string option option \<Rightarrow> response" where
  "idea_pdf_POST sess d bi ideaId form =
     (case (if authError sess then None else user sess) of
        None \<Rightarrow> unauthorized
      | Some uid \<Rightarrow>
          (case db_select_single d (by_id ideaId uid) of
             Inl _ \<Rightarrow> json_response 404 (ErrorBody ''Idea not found'')
           | Inr idea \<Rightarrow>
               (case form of
                  None \<Rightarrow> export_failed
                | Some field \<Rightarrow>
                    generatePDFResponse bi (data idea)
                      (case JSON_parse bi (case field of None \<Rightarrow> ''null'' | Some t \<Rightarrow> t) of
                         None \<Rightarrow> fallback_plan ''Unable to load summary''
                       | Some v \<Rightarrow> v))))"

text \<open>\<open>GET\<close>, with a plan made on the spot.\<close>

definition idea_pdf_GET ::
  "session \<Rightarrow> db \<Rightarrow> builtins \<Rightarrow> string \<Rightarrow> string option \<Rightarrow> response \<times> nat" where
  "idea_pdf_GET sess d bi ideaId reply =
     (case (if authError sess then None else user sess) of
        None \<Rightarrow> (unauthorized, 0)
      | Some uid \<Rightarrow>
          (case db_select_single d (by_id ideaId uid) of
             Inl _ \<Rightarrow> (json_response 404 (ErrorBody ''Idea not found''), 0)
           | Inr idea \<Rightarrow>
               if data idea = JNull then (export_failed, 0)
               else
                 (case reply of
                    None \<Rightarrow> (export_failed, 1)
                  | Some responseText \<Rightarrow>
                      (generatePDFResponse bi (data idea)
                         (case JSON_parse bi responseText of
                            None \<Rightarrow> fallback_plan ''Unable to generate summary''
                          | Some v \<Rightarrow> v), 1))))"

subsection \<open>The distance\<close>

text \<open>
  The route \<open>/api/distance\<close>, \<open>GET\<close>. It reads no entry. The key is the one of the
  environment, if set; the answer of the maps service is what \<open>res.json()\<close> returns,
  \<open>None\<close> when the request or the reading throws. The number beside the response counts
  the requests sent to the service.
\<close>

record distance_params =
  dp_origin :: "string option"
  dp_destination :: "string option"

definition distance_GET ::
  "session \<Rightarrow> distance_params \<Rightarrow> string option \<Rightarrow> json option \<Rightarrow> response \<times> nat" where
  "distance_GET sess dp apiKey fetched =
     (case user sess of
        None \<Rightarrow> (unauthorized, 0)
      | Some uid \<Rightarrow>
          if dp_origin dp \<in> {None, Some []} \<or> dp_destination dp \<in> {None, Some []} then
            (json_response 400 (ErrorBody ''Missing origin or destination''), 0)
          else if apiKey \<in> {None, Some []} then
            (json_response 500 (ErrorBody ''API key not configured''), 0)
          else
            (case fetched of
               None \<Rightarrow> (json_response 500 (ErrorBody ''Failed to calculate distance''), 1)
             | Some JNull \<Rightarrow> (json_response 500 (ErrorBody ''Failed to calculate distance''), 1)
             | Some dat \<Rightarrow>
                 if get_prop dat ''status'' \<noteq> Some (JStr ''OK'') then
                   (json_response 400 (ErrorValueBody (get_prop dat ''status'')), 1)
                 else
                   (let element = opt_first (opt_prop (opt_first (get_prop dat ''rows'')) ''elements'')
                    in if \<not> truthy element \<or> opt_prop element ''status'' \<noteq> Some (JStr ''OK'') then
                         (json_response 400 (ErrorBody ''Could not calculate distance''), 1)
                       else
                         (json_response 200
                            (DistanceBody
                               (js_or (opt_prop (opt_prop element ''duration_in_traffic'') ''text'')
                                      (opt_prop (opt_prop element ''duration'') ''text''))
                               (opt_prop (opt_prop element ''distance'') ''text'')), 1))))"

section \<open>Sample data\<close>

text \<open>
  A small store, two sessions and a runtime, on which the theorems below are evaluated.
  \<open>sample_parse\<close> knows the JSON texts that the examples use and throws on any other.
\<close>

definition alice :: session where
  "alice = \<lparr>user = Some ''alice'', authError = False\<rparr>"

definition nobody :: session where
  "nobody = \<lparr>user = None, authError = False\<rparr>"

definition alice_task :: entry where
  "alice_task =
     \<lparr>entry_id = ''t1'', category = ''tasks'',
      data = JObj [''task'' \<mapsto> JStr ''Call the bank'', ''priority'' \<mapsto> JStr ''low'',
                   ''deadline'' \<mapsto> JStr ''none''],
      confidence = 0.9, needs_review = False, archived = False, linked_entries = [],
      created_at = 100, updated_at = 100, user_id = Some ''alice''\<rparr>"

definition alice_project :: entry where
  "alice_project =
     \<lparr>entry_id = ''p1'', category = ''projects'',
      data = JObj [''goal'' \<mapsto> JStr ''Launch'', ''status'' \<mapsto> JStr ''active'',
                   ''nextAction'' \<mapsto> JStr ''Plan''],
      confidence = 0.8, needs_review = False, archived = False, linked_entries = [],
      created_at = 200, updated_at = 200, user_id = Some ''alice''\<rparr>"

definition alice_old_task :: entry where
  "alice_old_task =
     \<lparr>entry_id = ''t0'', category = ''tasks'', data = JObj [''task'' \<mapsto> JStr ''Done''],
      confidence = 0.7, needs_review = False, archived = True, linked_entries = [],
      created_at = 50, updated_at = 60, user_id = Some ''alice''\<rparr>"

definition bob_task :: entry where
  "bob_task =
     \<lparr>entry_id = ''b1'', category = ''tasks'', data = JObj [''task'' \<mapsto> JStr ''Buy milk''],
      confidence = 0.9, needs_review = False, archived = False, linked_entries = [],
      created_at = 300, updated_at = 300, user_id = Some ''bob''\<rparr>"

definition sample_db :: db where
  "sample_db =
     \<lparr>rows = [alice_old_task, alice_task, alice_project, bob_task],
      failing = (\<lambda>op. False),
      gen_id = (\<lambda>rs. replicate (length rs) (CHR ''n''))\<rparr>"

definition quiet_db :: db where
  "quiet_db =
     \<lparr>rows = [alice_old_task, bob_task],
      failing = (\<lambda>op. False),
      gen_id = (\<lambda>rs. replicate (length rs) (CHR ''n''))\<rparr>"

definition priority_block :: string where
  \<open>priority_block = ''{"action":"update","updates":{"priority":"high"}}''\<close>

definition note_block :: string where
  \<open>note_block = ''{"action":"note","updates":{}}''\<close>

definition deadline_block :: string where
  \<open>deadline_block = ''{"action":"update","updates":{"deadline":"someday"}}''\<close>

definition status_block :: string where
  \<open>status_block = ''{"action":"update","updates":{"status":"","goal":"Ship"}}''\<close>

definition broken_block :: string where
  \<open>broken_block = ''{"action":"update","updates":{priority: high}}''\<close>

definition capture_reply :: string where
  \<open>capture_reply = ''{"category":"tasks","confidence":0.5,"data":{"task":"Call"}}''\<close>

definition sample_parse :: "string \<Rightarrow> json option" where
  "sample_parse s =
     (if s = priority_block then
        Some (JObj [''action'' \<mapsto> JStr ''update'',
                    ''updates'' \<mapsto> JObj [''priority'' \<mapsto> JStr ''high'']])
      else if s = note_block then
        Some (JObj [''action'' \<mapsto> JStr ''note'', ''updates'' \<mapsto> JObj Map.empty])
      else if s = deadline_block then
        Some (JObj [''action'' \<mapsto> JStr ''update'',
                    ''updates'' \<mapsto> JObj [''deadline'' \<mapsto> JStr ''someday'']])
      else if s = status_block then
        Some (JObj [''action'' \<mapsto> JStr ''update'',
                    ''updates'' \<mapsto> JObj [''status'' \<mapsto> JStr [], ''goal'' \<mapsto> JStr ''Ship'']])
      else if s = capture_reply then
        Some (JObj [''category'' \<mapsto> JStr ''tasks'', ''confidence'' \<mapsto> JNum 0.5,
                    ''data'' \<mapsto> JObj [''task'' \<mapsto> JStr ''Call'']])
      else None)"

text \<open>
  The sample runtime prints an instant as \<open>@\<close> and its number of milliseconds, parses
  \<open>2024-03-15\<close> as midnight of that day (universal time) and no other text, and runs two
  hours ahead of universal time; its clock stands at 2024-03-10, 13:30 universal time.
  Its documents are a page and a file of one word.
\<close>

definition sample_builtins :: builtins where
  "sample_builtins =
     \<lparr>JSON_parse = sample_parse,
      Date_parse = (\<lambda>s. if s = ''2024-03-15'' then Some 1710460800000 else None),
      toISOString = (\<lambda>t. ''@'' @ show_nat (nat t)),
      ToString = (\<lambda>v. ''[object Object]''),
      ToNumber = (\<lambda>v. None),
      LocalTime = (\<lambda>t. t + 7200000),
      UTC = (\<lambda>l. l - 7200000),
      now = 1710077400000,
      HTML_document = (\<lambda>idea plan. Some ''page''),
      PDF_document = (\<lambda>idea plan. Inr ''file'')\<rparr>"


text \<open>
  A request to the classifier whose reply has confidence 0.5, with the entry it makes, and a
  manual request that names neither confidence nor review flag but asks for an archived
  entry, with the entry it makes.
\<close>

definition capture_body :: json where
  "capture_body = JObj [''text'' \<mapsto> JStr ''call the bank'']"

definition captured :: entry where
  "captured =
     \<lparr>entry_id = ''nnnn'', category = ''tasks'', data = JObj [''task'' \<mapsto> JStr ''Call''],
      confidence = 0.5, needs_review = True, archived = False, linked_entries = [],
      created_at = 1710077400000, updated_at = 1710077400000, user_id = Some ''alice''\<rparr>"

definition manual_body :: json where
  "manual_body =
     JObj [''category'' \<mapsto> JStr ''ideas'', ''data'' \<mapsto> JObj [''insight'' \<mapsto> JStr ''Tea''],
           ''archived'' \<mapsto> JBool True]"

definition created :: entry where
  "created =
     \<lparr>entry_id = ''nnnn'', category = ''ideas'', data = JObj [''insight'' \<mapsto> JStr ''Tea''],
      confidence = 1.0, needs_review = False, archived = False, linked_entries = [],
      created_at = 1710077400000, updated_at = 1710077400000, user_id = Some ''alice''\<rparr>"

text \<open>The updates of the priority block, as \<open>JSON.parse\<close> returns them.\<close>

definition high_priority :: json where
  "high_priority = JObj [''priority'' \<mapsto> JStr ''high'']"

text \<open>A reply with two action blocks, the second at its end.\<close>

definition two_blocks :: string where
  "two_blocks = note_block @ '' '' @ priority_block"

text \<open>A reply whose action block is not JSON.\<close>

definition broken_reply :: string where
  "broken_reply = ''Done. '' @ broken_block"

text \<open>
  Replies that end with the status block and with the deadline block, and the updates of
  the two blocks as \<open>JSON.parse\<close> returns them.
\<close>

definition status_reply :: string where
  "status_reply = ''Done. '' @ status_block"

definition empty_status :: json where
  "empty_status = JObj [''status'' \<mapsto> JStr [], ''goal'' \<mapsto> JStr ''Ship'']"


definition someday :: json where
  "someday = JObj [''deadline'' \<mapsto> JStr ''someday'']"

text \<open>
  An idea of Alice in a store of its own, and the opening of a reply with braces that are
  not an action block.
\<close>

definition alice_idea :: entry where
  "alice_idea =
     \<lparr>entry_id = ''i1'', category = ''ideas'',
      data = JObj [''insight'' \<mapsto> JStr ''Sell maps'', ''category'' \<mapsto> JStr ''business''],
      confidence = 0.9, needs_review = False, archived = False, linked_entries = [],
      created_at = 400, updated_at = 400, user_id = Some ''alice''\<rparr>"

definition idea_db :: db where
  "idea_db =
     \<lparr>rows = [alice_idea, bob_task],
      failing = (\<lambda>op. False),
      gen_id = (\<lambda>rs. replicate (length rs) (CHR ''n''))\<rparr>"

definition braced_intro :: string where
  "braced_intro = ''I set {priority} as asked. ''"

section \<open>Facts about the store\<close>

lemma filter_none: "\<forall>x \<in> set xs. \<not> P x \<Longrightarrow> filter P xs = []"
  by (induction xs) auto

lemma map_untouched: "\<forall>x \<in> set xs. \<not> P x \<Longrightarrow> map (\<lambda>r. if P r then f r else r) xs = xs"
  by (induction xs) auto

lemma filter_untouched: "\<forall>x \<in> set xs. \<not> P x \<Longrightarrow> filter (\<lambda>r. \<not> P r) xs = xs"
  by (induction xs) auto

lemma select_single_none:
  "\<forall>e \<in> set (rows d). \<not> P e \<Longrightarrow>
   db_select_single d P = (if failing d Select then Inl DbFailure else Inl PGRST116)"
  by (simp add: db_select_single_def db_select_def single_def filter_none)

lemma update_single_none:
  "\<forall>e \<in> set (rows d). \<not> P e \<Longrightarrow>
   db_update_single d P p =
     (if failing d Update \<or> \<not> patch_ok p then (Inl DbFailure, d) else (Inl PGRST116, d))"
  by (simp add: db_update_single_def db_update_def filter_none)

lemma delete_none:
  "\<forall>e \<in> set (rows d). \<not> P e \<Longrightarrow>
   db_delete d P = (if failing d Delete then (Inl DbFailure, d) else (Inr (), d))"
  by (simp add: db_delete_def filter_untouched)

lemma mset_order_desc: "mset (order_desc xs) = mset xs"
  by (simp add: order_desc_def)

lemma set_order_desc: "set (order_desc xs) = set xs"
  by (simp add: order_desc_def)

lemma mset_split_filter:
  "mset (filter (\<lambda>x. P x \<and> \<not> Q x) xs) + mset (filter (\<lambda>x. P x \<and> Q x) xs) =
   mset (filter P xs)"
  by (induction xs) auto

section \<open>Entries of another user\<close>

text \<open>
  When the caller owns no row of the given id, the three handlers of one entry find
  nothing: the read answers 404 (500 when the store fails), the update answers 500 once
  the body is read, and the delete answers as it does whenever the store does not fail.
\<close>

lemma entry_GET_none:
  assumes "user sess = Some uid" and "\<forall>e \<in> set (rows d). \<not> by_id i uid e"
  shows "entry_GET sess d i =
           (if failing d Select then json_response 500 (ErrorBody ''Failed to fetch entry'')
            else json_response 404 (ErrorBody ''Entry not found''))"
  using assms by (simp add: entry_GET_def select_single_none)

lemma entry_PATCH_none:
  assumes "user sess = Some uid" and "\<forall>e \<in> set (rows d). \<not> by_id i uid e"
  shows "entry_PATCH sess d bi i req =
           (case req of
              None \<Rightarrow> (json_response 400 (ErrorBody ''Invalid request body''), d)
            | Some JNull \<Rightarrow> (json_response 400 (ErrorBody ''Invalid request body''), d)
            | Some b \<Rightarrow> (json_response 500 (ErrorBody ''Failed to update entry''), d))"
  using assms by (simp add: entry_PATCH_def update_single_none split: option.splits json.splits)

lemma entry_DELETE_none:
  assumes "user sess = Some uid" and "\<forall>e \<in> set (rows d). \<not> by_id i uid e"
  shows "entry_DELETE sess d i =
           (if failing d Delete then (json_response 500 (ErrorBody ''Failed to delete entry''), d)
            else (json_response 200 SuccessBody, d))"
  using assms by (simp add: entry_DELETE_def delete_none)

text \<open>
  Claim C1, as amended. Let \<open>i\<close> be the id of an entry that another user owns and \<open>j\<close> an
  id that no entry has. For a caller with a session, reading, updating and deleting \<open>i\<close>
  answer exactly as they do for \<open>j\<close>, the store is the same after the update and after
  the delete, and the read answers 404 \<open>Entry not found\<close> when the store does not fail.
\<close>

theorem foreign_entry_like_missing:
  assumes "user sess = Some uid"
    and "e \<in> set (rows d)" and "entry_id e = i" and "user_id e \<noteq> Some uid"
    and "\<forall>x \<in> set (rows d). entry_id x = i \<longrightarrow> x = e"
    and "\<forall>x \<in> set (rows d). entry_id x \<noteq> j"
  shows "entry_GET sess d i = entry_GET sess d j \<and>
         entry_PATCH sess d bi i req = entry_PATCH sess d bi j req \<and>
         entry_DELETE sess d i = entry_DELETE sess d j \<and>
         snd (entry_PATCH sess d bi i req) = d \<and>
         snd (entry_DELETE sess d i) = d \<and>
         (\<not> failing d Select \<longrightarrow>
            entry_GET sess d i = json_response 404 (ErrorBody ''Entry not found''))"
proof -
  have ni: "\<forall>x \<in> set (rows d). \<not> by_id i uid x"
    using assms(3,4,5) by (auto simp: by_id_def)
  have nj: "\<forall>x \<in> set (rows d). \<not> by_id j uid x"
    using assms(6) by (auto simp: by_id_def)
  show ?thesis
    using assms(1)
    by (simp add: entry_GET_none [OF assms(1) ni] entry_GET_none [OF assms(1) nj]
        entry_PATCH_none [OF assms(1) ni] entry_PATCH_none [OF assms(1) nj]
        entry_DELETE_none [OF assms(1) ni] entry_DELETE_none [OF assms(1) nj]
        split: option.splits json.splits)
qed

text \<open>The theorem at Bob's task \<open>b1\<close>, asked for by Alice, beside the id \<open>zz\<close> of no entry.\<close>

theorem foreign_entry_like_missing_witness:
  "entry_GET alice sample_db ''b1'' = entry_GET alice sample_db ''zz'' \<and>
   entry_PATCH alice sample_db sample_builtins ''b1'' (Some (JObj [''archived'' \<mapsto> JBool True])) =
     entry_PATCH alice sample_db sample_builtins ''zz'' (Some (JObj [''archived'' \<mapsto> JBool True])) \<and>
   entry_DELETE alice sample_db ''b1'' = entry_DELETE alice sample_db ''zz'' \<and>
   snd (entry_PATCH alice sample_db sample_builtins ''b1''
          (Some (JObj [''archived'' \<mapsto> JBool True]))) = sample_db \<and>
   snd (entry_DELETE alice sample_db ''b1'') = sample_db \<and>
   entry_GET alice sample_db ''b1'' = json_response 404 (ErrorBody ''Entry not found'')"
proof -
  have h1: "user alice = Some ''alice''"
    by (simp add: alice_def)
  have h2: "bob_task \<in> set (rows sample_db)"
    by (simp add: sample_db_def)
  have h3: "entry_id bob_task = ''b1''" and h4: "user_id bob_task \<noteq> Some ''alice''"
    by (simp_all add: bob_task_def)
  have h5: "\<forall>x \<in> set (rows sample_db). entry_id x = ''b1'' \<longrightarrow> x = bob_task"
    by (simp add: sample_db_def alice_task_def alice_project_def alice_old_task_def)
  have h6: "\<forall>x \<in> set (rows sample_db). entry_id x \<noteq> ''zz''"
    by (simp add: sample_db_def alice_task_def alice_project_def alice_old_task_def bob_task_def)
  have h7: "\<not> failing sample_db Select"
    by (simp add: sample_db_def)
  show ?thesis
    using foreign_entry_like_missing [OF h1 h2 h3 h4 h5 h6, of sample_builtins
        "Some (JObj [''archived'' \<mapsto> JBool True])"] h7
    by metis
qed

text \<open>
  The claim as it stands calls the common answer a not-found outcome. Asked by Alice for
  Bob's task, the delete answers 200 with \<open>success\<close> and the update answers 500.
\<close>

theorem foreign_entry_not_found_counterexample:
  "fst (entry_DELETE alice sample_db ''b1'') = json_response 200 SuccessBody \<and>
   fst (entry_PATCH alice sample_db sample_builtins ''b1''
          (Some (JObj [''archived'' \<mapsto> JBool True]))) =
     json_response 500 (ErrorBody ''Failed to update entry'')"
  by (simp add: entry_DELETE_def entry_PATCH_def db_delete_def db_update_single_def db_update_def
      patch_ok_def col_ok_def col_bool_def no_payload_def by_id_def
      alice_def sample_db_def bob_task_def alice_task_def alice_project_def alice_old_task_def)

section \<open>The two listings\<close>

text \<open>
  Claim C3. For a caller with a session and a store that answers, the listing under the
  default archived filter (no \<open>archived\<close> parameter, or any value but \<open>only\<close> and
  \<open>true\<close>) holds no archived entry, the listing under \<open>archived=only\<close> holds no entry
  that is not archived, and every entry of the caller is in exactly one of the two: as
  multisets, the two listings add up to the caller's entries.
\<close>

theorem archived_listings_partition:
  assumes "user sess = Some uid" and "\<not> failing d Select"
    and "a \<noteq> Some ''only''" and "a \<noteq> Some ''true''"
  shows "\<exists>xs ys.
           entries_GET sess d \<lparr>sp_category = None, sp_archived = a, sp_needs_review = None\<rparr> =
             json_response 200 (EntriesBody xs) \<and>
           entries_GET sess d
              \<lparr>sp_category = None, sp_archived = Some ''only'', sp_needs_review = None\<rparr> =
             json_response 200 (EntriesBody ys) \<and>
           (\<forall>e \<in> set xs. \<not> archived e) \<and> (\<forall>e \<in> set ys. archived e) \<and>
           (\<forall>e \<in> set (rows d). user_id e = Some uid \<longrightarrow> (e \<in> set xs) \<noteq> (e \<in> set ys)) \<and>
           mset xs + mset ys = mset (filter (\<lambda>e. user_id e = Some uid) (rows d))"
proof -
  let ?dflt = "\<lparr>sp_category = None, sp_archived = a, sp_needs_review = None\<rparr>"
  let ?only = "\<lparr>sp_category = None, sp_archived = Some ''only'', sp_needs_review = None\<rparr>"
  let ?xs = "order_desc (filter (list_filter uid ?dflt) (rows d))"
  let ?ys = "order_desc (filter (list_filter uid ?only) (rows d))"
  have fd: "list_filter uid ?dflt = (\<lambda>e. user_id e = Some uid \<and> \<not> archived e)"
    using assms(3,4) by (auto simp: list_filter_def fun_eq_iff)
  have fo: "list_filter uid ?only = (\<lambda>e. user_id e = Some uid \<and> archived e)"
    by (auto simp: list_filter_def fun_eq_iff)
  have 1: "entries_GET sess d ?dflt = json_response 200 (EntriesBody ?xs)"
    using assms(1,2) by (simp add: entries_GET_def db_select_def)
  have 2: "entries_GET sess d ?only = json_response 200 (EntriesBody ?ys)"
    using assms(1,2) by (simp add: entries_GET_def db_select_def)
  have 3: "\<forall>e \<in> set ?xs. \<not> archived e"
    by (simp add: set_order_desc fd)
  have 4: "\<forall>e \<in> set ?ys. archived e"
    by (simp add: set_order_desc fo)
  have 5: "\<forall>e \<in> set (rows d). user_id e = Some uid \<longrightarrow> (e \<in> set ?xs) \<noteq> (e \<in> set ?ys)"
    by (auto simp: set_order_desc fd fo)
  have 6: "mset ?xs + mset ?ys = mset (filter (\<lambda>e. user_id e = Some uid) (rows d))"
    unfolding mset_order_desc fd fo by (rule mset_split_filter)
  from 1 2 3 4 5 6 show ?thesis by blast
qed

text \<open>Alice's two listings of the sample store: two open entries, newest first, and one archived.\<close>

theorem archived_listings_partition_witness:
  "entries_GET alice sample_db \<lparr>sp_category = None, sp_archived = None, sp_needs_review = None\<rparr> =
     json_response 200 (EntriesBody [alice_project, alice_task]) \<and>
   entries_GET alice sample_db
      \<lparr>sp_category = None, sp_archived = Some ''only'', sp_needs_review = None\<rparr> =
     json_response 200 (EntriesBody [alice_old_task]) \<and>
   (\<exists>xs ys.
      entries_GET alice sample_db \<lparr>sp_category = None, sp_archived = None, sp_needs_review = None\<rparr> =
        json_response 200 (EntriesBody xs) \<and>
      entries_GET alice sample_db
         \<lparr>sp_category = None, sp_archived = Some ''only'', sp_needs_review = None\<rparr> =
        json_response 200 (EntriesBody ys) \<and>
      mset xs + mset ys = mset (filter (\<lambda>e. user_id e = Some ''alice'') (rows sample_db)))"
proof -
  have h1: "user alice = Some ''alice''"
    by (simp add: alice_def)
  have h2: "\<not> failing sample_db Select"
    by (simp add: sample_db_def)
  have h3: "(None :: string option) \<noteq> Some ''only''" and h4: "(None :: string option) \<noteq> Some ''true''"
    by simp_all
  have e1: "entries_GET alice sample_db \<lparr>sp_category = None, sp_archived = None, sp_needs_review = None\<rparr> =
     json_response 200 (EntriesBody [alice_project, alice_task])"
    by (simp add: entries_GET_def db_select_def list_filter_def order_desc_def
        alice_def sample_db_def bob_task_def alice_task_def alice_project_def alice_old_task_def)
  have e2: "entries_GET alice sample_db
      \<lparr>sp_category = None, sp_archived = Some ''only'', sp_needs_review = None\<rparr> =
     json_response 200 (EntriesBody [alice_old_task])"
    by (simp add: entries_GET_def db_select_def list_filter_def order_desc_def
        alice_def sample_db_def bob_task_def alice_task_def alice_project_def alice_old_task_def)
  show ?thesis
    using archived_listings_partition [OF h1 h2 h3 h4] e1 e2 by blast
qed

section \<open>The digest of a caller without open work\<close>

lemma open_entries_none:
  assumes "\<forall>e \<in> set (rows d). user_id e = Some uid \<and> archived e = False \<longrightarrow> category e \<noteq> cat"
  shows "open_entries d uid cat n = []"
proof -
  have "filter (\<lambda>e. category e = cat \<and> archived e = False \<and> user_id e = Some uid) (rows d) = []"
    using assms by (intro filter_none) auto
  then show ?thesis
    by (simp add: open_entries_def db_select_def order_desc_def)
qed

text \<open>
  Claim C8. For a caller with a session who has no task and no project that is not
  archived, the digest (in either version of the handler) answers with the empty list of
  bullets and makes no call to the language model, whatever the store and the model would
  have answered.
\<close>

theorem digest_empty_without_call:
  assumes "user sess = Some uid"
    and "\<forall>e \<in> set (rows d). user_id e = Some uid \<and> archived e = False \<longrightarrow>
           category e \<noteq> ''tasks'' \<and> category e \<noteq> ''projects''"
  shows "summary_GET sess d bi reply = (json_response 200 (BulletsBody (JArr [])), 0) \<and>
         summary_GET_1 sess d bi reply = (json_response 200 (BulletsBody (JArr [])), 0)"
proof -
  have t: "open_entries d uid ''tasks'' 10 = []"
    using assms(2) by (intro open_entries_none) auto
  have p: "open_entries d uid ''projects'' 5 = []"
    using assms(2) by (intro open_entries_none) auto
  show ?thesis
    using assms(1) by (simp add: summary_GET_def summary_GET_1_def summary_GET_with_def t p)
qed

text \<open>Alice in the store that holds her archived task and Bob's task only.\<close>

theorem digest_empty_without_call_witness:
  "summary_GET alice quiet_db sample_builtins (Some ''[]'') =
     (json_response 200 (BulletsBody (JArr [])), 0) \<and>
   summary_GET_1 alice quiet_db sample_builtins (Some ''[]'') =
     (json_response 200 (BulletsBody (JArr [])), 0)"
proof -
  have h1: "user alice = Some ''alice''"
    by (simp add: alice_def)
  have h2: "\<forall>e \<in> set (rows quiet_db). user_id e = Some ''alice'' \<and> archived e = False \<longrightarrow>
           category e \<noteq> ''tasks'' \<and> category e \<noteq> ''projects''"
    by (simp add: quiet_db_def alice_old_task_def bob_task_def)
  show ?thesis
    using digest_empty_without_call [OF h1 h2] by simp
qed

section \<open>Requests without a session\<close>

text \<open>
  Claim C9, as amended. A request without a caller is answered before the store is read or
  written, before the language model is called and before the maps service is asked: the
  store is returned as it was, no call is counted, and the answer does not depend on the
  store. Every endpoint but the digest answers 401 \<open>Unauthorized\<close>: the listing, the
  creation, the reading, the update and the deletion of entries, the classifier, the three
  chats, the suggestions for an idea and for a project, the saved flag, the three exports
  and the distance. The digest, in both versions of its handler, answers 200 with an empty
  list of bullets.
\<close>

theorem no_session_no_access:
  assumes "user sess = None"
  shows "entries_GET sess d sp = unauthorized \<and>
         entries_POST sess d bi req = (unauthorized, d) \<and>
         entry_GET sess d i = unauthorized \<and>
         entry_PATCH sess d bi i req = (unauthorized, d) \<and>
         entry_DELETE sess d i = (unauthorized, d) \<and>
         capture_POST sess d bi req reply = (unauthorized, d, 0) \<and>
         task_chat_POST sess d bi i msg reply = (unauthorized, d, 0) \<and>
         project_chat_POST sess d bi i msg reply = (unauthorized, d, 0) \<and>
         idea_chat_POST sess d bi i msg reply = (unauthorized, d, 0) \<and>
         idea_suggestions_GET sess d bi i reply = (unauthorized, 0) \<and>
         project_suggestions_GET sess d bi i regenerate reply = (unauthorized, d, 0) \<and>
         idea_save_POST sess d bi i = (unauthorized, d) \<and>
         idea_export_GET sess d bi i reply = (unauthorized, 0) \<and>
         idea_pdf_POST sess d bi i form = unauthorized \<and>
         idea_pdf_GET sess d bi i reply = (unauthorized, 0) \<and>
         distance_GET sess dp apiKey fetched = (unauthorized, 0) \<and>
         summary_GET sess d bi reply = (json_response 200 (BulletsBody (JArr [])), 0) \<and>
         summary_GET_1 sess d bi reply = (json_response 200 (BulletsBody (JArr [])), 0)"
proof (intro conjI)
  show "entries_GET sess d sp = unauthorized"
    using assms by (simp add: entries_GET_def)
  show "entries_POST sess d bi req = (unauthorized, d)"
    using assms by (simp add: entries_POST_def)
  show "entry_GET sess d i = unauthorized"
    using assms by (simp add: entry_GET_def)
  show "entry_PATCH sess d bi i req = (unauthorized, d)"
    using assms by (simp add: entry_PATCH_def)
  show "entry_DELETE sess d i = (unauthorized, d)"
    using assms by (simp add: entry_DELETE_def)
  show "capture_POST sess d bi req reply = (unauthorized, d, 0)"
    using assms by (simp add: capture_POST_def)
  show "task_chat_POST sess d bi i msg reply = (unauthorized, d, 0)"
    using assms by (simp add: task_chat_POST_def)
  show "project_chat_POST sess d bi i msg reply = (unauthorized, d, 0)"
    using assms by (simp add: project_chat_POST_def)
  show "idea_chat_POST sess d bi i msg reply = (unauthorized, d, 0)"
    using assms by (simp add: idea_chat_POST_def)
  show "idea_suggestions_GET sess d bi i reply = (unauthorized, 0)"
    using assms by (simp add: idea_suggestions_GET_def)
  show "project_suggestions_GET sess d bi i regenerate reply = (unauthorized, d, 0)"
    using assms by (simp add: project_suggestions_GET_def)
  show "idea_save_POST sess d bi i = (unauthorized, d)"
    using assms by (simp add: idea_save_POST_def)
  show "idea_export_GET sess d bi i reply = (unauthorized, 0)"
    using assms by (simp add: idea_export_GET_def)
  show "idea_pdf_POST sess d bi i form = unauthorized"
    using assms by (simp add: idea_pdf_POST_def)
  show "idea_pdf_GET sess d bi i reply = (unauthorized, 0)"
    using assms by (simp add: idea_pdf_GET_def)
  show "distance_GET sess dp apiKey fetched = (unauthorized, 0)"
    using assms by (simp add: distance_GET_def)
  show "summary_GET sess d bi reply = (json_response 200 (BulletsBody (JArr [])), 0)"
    using assms by (simp add: summary_GET_def summary_GET_with_def)
  show "summary_GET_1 sess d bi reply = (json_response 200 (BulletsBody (JArr [])), 0)"
    using assms by (simp add: summary_GET_1_def summary_GET_with_def)
qed

text \<open>
  The theorem at the session without a caller, on the sample store: a listing, a deletion,
  a chat, the saved flag, the suggestions for a project that has to be written anew, an
  export, the distance between two places, and the digest.
\<close>

theorem no_session_no_access_witness:
  "entries_GET nobody sample_db \<lparr>sp_category = None, sp_archived = None, sp_needs_review = None\<rparr> =
     unauthorized \<and>
   entry_DELETE nobody sample_db ''t1'' = (unauthorized, sample_db) \<and>
   task_chat_POST nobody sample_db sample_builtins ''t1'' (Some ''hello'') (Some ''hi'') =
     (unauthorized, sample_db, 0) \<and>
   idea_save_POST nobody sample_db sample_builtins ''t1'' = (unauthorized, sample_db) \<and>
   project_suggestions_GET nobody sample_db sample_builtins ''t1'' (Some ''true'') (Some ''hi'') =
     (unauthorized, sample_db, 0) \<and>
   idea_pdf_GET nobody sample_db sample_builtins ''t1'' (Some ''hi'') = (unauthorized, 0) \<and>
   distance_GET nobody \<lparr>dp_origin = Some ''1,2'', dp_destination = Some ''Bern''\<rparr>
     (Some ''key'') (Some JNull) = (unauthorized, 0) \<and>
   summary_GET nobody sample_db sample_builtins (Some ''[]'') =
     (json_response 200 (BulletsBody (JArr [])), 0) \<and>
   status unauthorized = 401"
proof -
  have h: "user nobody = None"
    by (simp add: nobody_def)
  have s: "status unauthorized = 401"
    by (simp add: unauthorized_def json_response_def)
  note t = no_session_no_access [OF h, where d = sample_db and bi = sample_builtins
      and i = "''t1''" and msg = "Some ''hello''" and reply = "Some ''hi''"
      and regenerate = "Some ''true''"
      and dp = "\<lparr>dp_origin = Some ''1,2'', dp_destination = Some ''Bern''\<rparr>"
      and apiKey = "Some ''key''" and fetched = "Some JNull"
      and sp = "\<lparr>sp_category = None, sp_archived = None, sp_needs_review = None\<rparr>"]
  note u = no_session_no_access [OF h, where d = sample_db and bi = sample_builtins
      and reply = "Some ''[]''"]
  from t u s show ?thesis
    by blast
qed

text \<open>
  The claim as it stands has every endpoint, the digest among them, answer a request
  without a session with an error. The digest answers it with a success.
\<close>

theorem digest_without_session_counterexample:
  "fst (summary_GET nobody sample_db sample_builtins (Some ''[]'')) =
     json_response 200 (BulletsBody (JArr [])) \<and>
   status (fst (summary_GET nobody sample_db sample_builtins (Some ''[]''))) \<noteq> 401"
  by (simp add: summary_GET_def summary_GET_with_def nobody_def json_response_def)

section \<open>Created entries\<close>

lemma db_insert_cases:
  "db_insert d p t = (res, d') \<Longrightarrow>
     (\<exists>e. res = Inr e \<and> new_row p (gen_id d (rows d)) t = Some e \<and> rows d' = rows d @ [e])
     \<or> ((\<exists>x. res = Inl x) \<and> d' = d)"
  by (auto simp: db_insert_def split: if_splits option.splits)

lemma new_row_fields:
  assumes "new_row p i t = Some e"
  shows "Option.bind (p_archived p) col_bool = Some (archived e)"
    and "Option.bind (p_needs_review p) col_bool = Some (needs_review e)"
    and "Option.bind (p_confidence p) col_float = Some (confidence e)"
  using assms by (auto simp: new_row_def split: option.splits)

lemma entries_POST_created:
  assumes "entries_POST sess d bi (Some b) = (r, d')" and "body r = EntryBody e"
  shows "\<exists>uid. user sess = Some uid \<and> rows d' = rows d @ [e] \<and>
           new_row \<lparr>p_category = get_prop b ''category'',
                    p_data = get_prop b ''data'',
                    p_confidence = Some (nullish_or (get_prop b ''confidence'') (JNum 1.0)),
                    p_needs_review = Some (nullish_or (get_prop b ''needs_review'') (JBool False)),
                    p_archived = Some (JBool False),
                    p_linked_entries = Some (nullish_or (get_prop b ''linked_entries'') (JArr [])),
                    p_updated_at = None,
                    p_user_id = Some uid\<rparr> (gen_id d (rows d)) (now bi) = Some e"
  using assms
  by (auto simp: entries_POST_def unauthorized_def json_response_def
      split: option.splits json.splits sum.splits prod.splits dest!: db_insert_cases)

lemma capture_store_created:
  assumes "capture_store uid d bi result = (r, d')" and "body r = CaptureBody e nr mp"
  shows "nr = js_less bi (get_prop result ''confidence'') 0.6 \<and> rows d' = rows d @ [e] \<and>
         (\<exists>p. new_row p (gen_id d (rows d)) (now bi) = Some e \<and>
              p_confidence p = get_prop result ''confidence'' \<and>
              p_needs_review p = Some (JBool nr))"
  using assms
  by (auto simp: capture_store_def internal_error_def json_response_def Let_def
      split: option.splits json.splits sum.splits prod.splits dest!: db_insert_cases)

lemma capture_POST_created:
  assumes "capture_POST sess d bi req (Some rawText) = (r, d', n)"
    and "body r = CaptureBody e nr mp"
    and "JSON_parse bi (strip_fences rawText) = Some result"
  shows "\<exists>uid. capture_store uid d bi result = (r, d')"
  using assms
  by (auto simp: capture_POST_def unauthorized_def internal_error_def json_response_def
      split: option.splits json.splits if_splits prod.splits)

lemma strip_capture_reply: "strip_fences capture_reply = capture_reply"
  by code_simp

lemma capture_run:
  "capture_POST alice sample_db sample_builtins (Some capture_body)
     (Some capture_reply) =
   (json_response 200 (CaptureBody captured True None), sample_db\<lparr>rows := rows sample_db @ [captured]\<rparr>, 1)"
  apply (simp add: capture_POST_def capture_body_def alice_def get_prop_def sample_builtins_def strip_capture_reply)
  apply (simp add: sample_parse_def capture_reply_def priority_block_def note_block_def deadline_block_def status_block_def)
  apply (simp add: capture_store_def get_prop_def js_less_def to_number_def link_people_def
      db_insert_def new_row_def col_category_def categories_def col_jsonb_def col_float_def
      col_bool_def col_linked_def sample_db_def captured_def
      alice_task_def alice_project_def alice_old_task_def bob_task_def)
  done


lemma create_run:
  "entries_POST alice sample_db sample_builtins (Some manual_body) =
   (json_response 200 (EntryBody created), sample_db\<lparr>rows := rows sample_db @ [created]\<rparr>)"
  by (simp add: entries_POST_def manual_body_def alice_def get_prop_def sample_builtins_def
      nullish_or_def db_insert_def new_row_def col_category_def categories_def col_jsonb_def
      col_float_def col_bool_def col_linked_def sample_db_def created_def
      alice_task_def alice_project_def alice_old_task_def bob_task_def)

text \<open>
  Claim C2. When the reply of the classifier parses to a result whose confidence is the
  number \<open>c\<close>, the entry that classify-and-create stores, and the flag it reports, have
  \<open>needs_review\<close> true exactly when \<open>c < 0.6\<close>, and the entry keeps \<open>c\<close> as its
  confidence. When a manual create request names neither \<open>confidence\<close> nor
  \<open>needs_review\<close>, the entry it stores has confidence 1.0 and \<open>needs_review\<close> false.
\<close>

theorem needs_review_threshold:
  "(capture_POST sess d bi req (Some rawText) = (r, d', n) \<and>
    JSON_parse bi (strip_fences rawText) = Some result \<and>
    get_prop result ''confidence'' = Some (JNum c) \<and>
    body r = CaptureBody e nr mp \<longrightarrow>
      needs_review e = (c < 0.6) \<and> nr = (c < 0.6) \<and> confidence e = c \<and>
      rows d' = rows d @ [e]) \<and>
   (entries_POST sess d bi (Some b) = (r2, d2) \<and>
    get_prop b ''confidence'' = None \<and> get_prop b ''needs_review'' = None \<and>
    body r2 = EntryBody e2 \<longrightarrow>
      confidence e2 = 1.0 \<and> needs_review e2 = False \<and> rows d2 = rows d @ [e2])"
proof (intro conjI impI)
  assume a: "capture_POST sess d bi req (Some rawText) = (r, d', n) \<and>
    JSON_parse bi (strip_fences rawText) = Some result \<and>
    get_prop result ''confidence'' = Some (JNum c) \<and>
    body r = CaptureBody e nr mp"
  then obtain uid where s: "capture_store uid d bi result = (r, d')"
    using capture_POST_created by blast
  from capture_store_created [OF s] a obtain p where
    nr: "nr = js_less bi (Some (JNum c)) 0.6" and rw: "rows d' = rows d @ [e]" and
    p: "new_row p (gen_id d (rows d)) (now bi) = Some e" "p_confidence p = Some (JNum c)"
       "p_needs_review p = Some (JBool nr)"
    by auto
  have nr': "nr = (c < 0.6)"
    using nr by (simp add: js_less_def to_number_def)
  from new_row_fields(2,3) [OF p(1)] p(2,3) have "needs_review e = nr" "confidence e = c"
    by (simp_all add: col_bool_def col_float_def)
  with nr' rw show "needs_review e = (c < 0.6)" "nr = (c < 0.6)" "confidence e = c"
    "rows d' = rows d @ [e]"
    by simp_all
next
  assume a: "entries_POST sess d bi (Some b) = (r2, d2) \<and>
    get_prop b ''confidence'' = None \<and> get_prop b ''needs_review'' = None \<and>
    body r2 = EntryBody e2"
  then obtain uid where rw: "rows d2 = rows d @ [e2]" and
    nr: "new_row \<lparr>p_category = get_prop b ''category'',
                    p_data = get_prop b ''data'',
                    p_confidence = Some (nullish_or (get_prop b ''confidence'') (JNum 1.0)),
                    p_needs_review = Some (nullish_or (get_prop b ''needs_review'') (JBool False)),
                    p_archived = Some (JBool False),
                    p_linked_entries = Some (nullish_or (get_prop b ''linked_entries'') (JArr [])),
                    p_updated_at = None,
                    p_user_id = Some uid\<rparr> (gen_id d (rows d)) (now bi) = Some e2"
    using entries_POST_created by blast
  from new_row_fields(2,3) [OF nr] a
  show "confidence e2 = 1.0" "needs_review e2 = False" "rows d2 = rows d @ [e2]"
    using rw by (simp_all add: nullish_or_def col_bool_def col_float_def)
qed

text \<open>Both halves on the sample store: a reply of confidence 0.5, and the manual request.\<close>

theorem needs_review_threshold_witness:
  "capture_POST alice sample_db sample_builtins (Some capture_body) (Some capture_reply) =
     (json_response 200 (CaptureBody captured True None),
      sample_db\<lparr>rows := rows sample_db @ [captured]\<rparr>, 1) \<and>
   needs_review captured = ((0.5 :: real) < 0.6) \<and> confidence captured = 0.5 \<and>
   entries_POST alice sample_db sample_builtins (Some manual_body) =
     (json_response 200 (EntryBody created), sample_db\<lparr>rows := rows sample_db @ [created]\<rparr>) \<and>
   confidence created = 1.0 \<and> needs_review created = False"
proof -
  have parse: "JSON_parse sample_builtins (strip_fences capture_reply) =
        Some (JObj [''category'' \<mapsto> JStr ''tasks'', ''confidence'' \<mapsto> JNum 0.5,
                    ''data'' \<mapsto> JObj [''task'' \<mapsto> JStr ''Call'']])"
    unfolding strip_capture_reply
    by (simp add: sample_builtins_def sample_parse_def capture_reply_def
        priority_block_def note_block_def deadline_block_def status_block_def)
  have conf: "get_prop (JObj [''category'' \<mapsto> JStr ''tasks'', ''confidence'' \<mapsto> JNum 0.5,
                    ''data'' \<mapsto> JObj [''task'' \<mapsto> JStr ''Call'']]) ''confidence'' = Some (JNum 0.5)"
    by (simp add: get_prop_def)
  have b1: "body (json_response 200 (CaptureBody captured True None)) = CaptureBody captured True None"
    by (simp add: json_response_def)
  have m1: "get_prop manual_body ''confidence'' = None" "get_prop manual_body ''needs_review'' = None"
    by (simp_all add: get_prop_def manual_body_def)
  have b2: "body (json_response 200 (EntryBody created)) = EntryBody created"
    by (simp add: json_response_def)
  show ?thesis
    using needs_review_threshold [of alice sample_db sample_builtins "Some capture_body"
        capture_reply "json_response 200 (CaptureBody captured True None)"
        "sample_db\<lparr>rows := rows sample_db @ [captured]\<rparr>" 1
        "JObj [''category'' \<mapsto> JStr ''tasks'', ''confidence'' \<mapsto> JNum 0.5,
               ''data'' \<mapsto> JObj [''task'' \<mapsto> JStr ''Call'']]" "0.5" captured True None
        manual_body "json_response 200 (EntryBody created)"
        "sample_db\<lparr>rows := rows sample_db @ [created]\<rparr>" created]
      capture_run create_run parse conf b1 m1 b2
    by simp
qed

text \<open>
  Claim C10. Whatever the body of a create request, an entry that the handler creates is not
  archived, and the store either stays as it was or gains exactly that one entry.
\<close>

theorem create_never_archived:
  assumes "entries_POST sess d bi req = (r, d')"
  shows "(\<forall>e. body r = EntryBody e \<longrightarrow> archived e = False) \<and>
         (d' = d \<or>
          (\<exists>e. r = json_response 200 (EntryBody e) \<and> rows d' = rows d @ [e] \<and> archived e = False))"
  using assms
  apply (auto simp: entries_POST_def unauthorized_def json_response_def
         split: option.splits json.splits sum.splits prod.splits dest!: db_insert_cases)
  apply (auto dest!: new_row_fields(1) simp: col_bool_def)
  done

text \<open>The manual request of the samples asks for \<open>archived: true\<close>.\<close>

theorem create_never_archived_witness:
  "get_prop manual_body ''archived'' = Some (JBool True) \<and>
   entries_POST alice sample_db sample_builtins (Some manual_body) =
     (json_response 200 (EntryBody created), sample_db\<lparr>rows := rows sample_db @ [created]\<rparr>) \<and>
   archived created = False"
proof -
  have b: "body (json_response 200 (EntryBody created)) = EntryBody created"
    by (simp add: json_response_def)
  have a: "get_prop manual_body ''archived'' = Some (JBool True)"
    by (simp add: get_prop_def manual_body_def)
  from create_never_archived [OF create_run] b have "archived created = False"
    by simp
  with a create_run show ?thesis by simp
qed

section \<open>The action block of a task chat\<close>

text \<open>
  Where the action pattern of the task chat matches: a match starts at an opening brace,
  and the priority block at the end of a reply in which no match starts before it is the
  match.
\<close>

lemma rx_exec_here:
  "rx_paths r s = (c, rest) # ps \<Longrightarrow>
   rx_exec r s =
     Some \<lparr>m_before = [], matched = take (length s - length rest) s, groups = c, m_after = rest\<rparr>"
  by (cases s) auto

lemma remove_first_self: "pat \<noteq> [] \<Longrightarrow> remove_first pat pat = []"
  by (cases pat) auto

lemma no_match_before_Cons:
  "no_match_before r (x # xs) (Suc n) = (rx_paths r (x # xs) = [] \<and> no_match_before r xs n)"
proof -
  have a: "no_match_before r s m = (\<forall>k < m. rx_paths r (drop k s) = [])" for s m
    unfolding no_match_before_def list_all_iff by auto
  show ?thesis
    unfolding a by (auto simp: less_Suc_eq_0_disj)
qed

lemma task_action_needs_brace:
  \<open>s = [] \<or> hd s \<noteq> CHR ''{'' \<Longrightarrow> rx_paths task_action_rx s = []\<close>
  by (cases s) (auto simp: task_action_rx_def seqs_def)

lemma no_brace_no_match:
  \<open>CHR ''{'' \<notin> set pre \<Longrightarrow> no_match_before task_action_rx (pre @ s) (length pre)\<close>
proof (induction pre)
  case Nil
  then show ?case by (simp add: no_match_before_def)
next
  case (Cons c cs)
  then have "rx_paths task_action_rx (c # cs @ s) = []"
    by (intro task_action_needs_brace) auto
  with Cons show ?case
    by (simp add: no_match_before_Cons)
qed

lemma task_action_priority_block: "rx_paths task_action_rx priority_block = [([], [])]"
  by code_simp

lemma task_action_priority_prefix: "rx_paths task_action_rx (priority_block @ rest) \<noteq> []"
  by (simp add: task_action_rx_def seqs_def plus_def priority_block_def not_quote_def
      not_brace_def is_space_def)

lemma priority_block_hd: \<open>priority_block = CHR ''{'' # tl priority_block\<close>
  by (simp add: priority_block_def)

lemma task_action_at_end:
  assumes "no_match_before task_action_rx (pre @ priority_block) (length pre)"
  shows "rx_exec task_action_rx (pre @ priority_block) =
           Some \<lparr>m_before = pre, matched = priority_block, groups = [], m_after = []\<rparr>"
  using assms
proof (induction pre)
  case Nil
  have "rx_exec task_action_rx priority_block =
          Some \<lparr>m_before = [], matched = priority_block, groups = [], m_after = []\<rparr>"
    using rx_exec_here [OF task_action_priority_block] by simp
  then show ?case by simp
next
  case (Cons c cs)
  then have "rx_paths task_action_rx (c # cs @ priority_block) = []"
    and "no_match_before task_action_rx (cs @ priority_block) (length cs)"
    by (simp_all add: no_match_before_Cons)
  with Cons.IH show ?case by simp
qed

lemma remove_first_at_end:
  assumes "no_match_before task_action_rx (pre @ priority_block) (length pre)"
  shows "remove_first (pre @ priority_block) priority_block = pre"
  using assms
proof (induction pre)
  case Nil
  have "priority_block \<noteq> []"
    by (subst priority_block_hd) simp
  then show ?case
    by (simp add: remove_first_self)
next
  case (Cons c cs)
  then have e: "rx_paths task_action_rx (c # cs @ priority_block) = []"
    and n: "no_match_before task_action_rx (cs @ priority_block) (length cs)"
    by (simp_all add: no_match_before_Cons)
  have "\<not> prefix priority_block (c # cs @ priority_block)"
  proof
    assume "prefix priority_block (c # cs @ priority_block)"
    then obtain rest where "c # cs @ priority_block = priority_block @ rest"
      by (auto simp: prefix_def)
    with e task_action_priority_prefix [of rest] show False
      by simp
  qed
  with Cons.IH [OF n] show ?case by simp
qed

lemma spread_not_null: "spread a b \<noteq> JNull"
  by (simp add: spread_def)

lemma db_update_data:
  assumes "\<not> failing d Update" and "v \<noteq> JNull"
  shows "db_update d P (data_payload bi v) =
           (Inr (map (\<lambda>r. r\<lparr>data := v, updated_at := now bi\<rparr>) (filter P (rows d))),
            d\<lparr>rows := map (\<lambda>r. if P r then r\<lparr>data := v, updated_at := now bi\<rparr> else r) (rows d)\<rparr>)"
proof -
  have ok: "patch_ok (data_payload bi v)"
    using assms(2) by (cases v) (simp_all add: patch_ok_def data_payload_def no_payload_def col_ok_def col_jsonb_def)
  have ap: "apply_patch (data_payload bi v) = (\<lambda>r. r\<lparr>data := v, updated_at := now bi\<rparr>)"
    using assms(2)
    by (cases v) (simp_all add: fun_eq_iff apply_patch_def data_payload_def no_payload_def set_col_def col_jsonb_def)
  show ?thesis
    using assms(1) ok by (simp add: db_update_def ap)
qed

lemma task_apply_priority:
  assumes "JSON_parse bi found =
             Some (JObj [''action'' \<mapsto> JStr ''update'', ''updates'' \<mapsto> high_priority])"
    and "\<not> failing d Update"
  shows "task_apply_action d bi i uid td message msg found =
           (json_response 200 (TaskChatBody (trim (remove_first msg found)) True),
            d\<lparr>rows := map (\<lambda>r. if by_id i uid r
                                 then r\<lparr>data := spread td high_priority, updated_at := now bi\<rparr>
                                 else r) (rows d)\<rparr>)"
proof -
  have u: "is_update (JObj [''action'' \<mapsto> JStr ''update'', ''updates'' \<mapsto> high_priority])"
    by (simp add: is_update_def get_prop_def truthy_def high_priority_def)
  have t: "the_updates (JObj [''action'' \<mapsto> JStr ''update'', ''updates'' \<mapsto> high_priority]) = high_priority"
    by (simp add: the_updates_def get_prop_def)
  have n: "append_notes bi td message high_priority = high_priority"
    by (simp add: append_notes_def get_prop_def truthy_def high_priority_def)
  have r: "resolve_deadline bi high_priority = Some high_priority"
    by (simp add: resolve_deadline_def get_prop_def truthy_def high_priority_def)
  show ?thesis
    using assms(1)
    by (simp add: task_apply_action_def Let_def u t n r
        db_update_data [OF assms(2) spread_not_null])
qed

text \<open>
  Claim C4, as amended. Let the reply of the task chat end with the block
  \<open>{"action":"update","updates":{"priority":"high"}}\<close>, let no match of the action
  pattern start before the block (so that the block is the first match of the pattern),
  and let the block parse. For a caller who owns the task, with a store that answers and
  in which every entry has data (the column is \<open>NOT NULL\<close>), the handler writes the
  stored data merged with the updates, stamps \<open>updated_at\<close> with the clock, reports the
  update, and returns the reply without the block, trimmed. In the data written,
  \<open>priority\<close> is \<open>high\<close> and every other property is the stored one.
\<close>

theorem trailing_priority_block_applied:
  assumes "user sess = Some uid" and "\<not> authError sess"
    and "db_select_single d (by_id i uid) = Inr task" and "category task = ''tasks''"
    and "\<forall>e \<in> set (rows d). data e \<noteq> JNull"
    and "\<not> failing d Update"
    and "no_match_before task_action_rx (pre @ priority_block) (length pre)"
    and "JSON_parse bi priority_block =
           Some (JObj [''action'' \<mapsto> JStr ''update'', ''updates'' \<mapsto> high_priority])"
  shows "task_chat_POST sess d bi i (Some message) (Some (pre @ priority_block)) =
           (json_response 200 (TaskChatBody (trim pre) True),
            d\<lparr>rows := map (\<lambda>r. if by_id i uid r
                                 then r\<lparr>data := spread (data task) high_priority,
                                        updated_at := now bi\<rparr>
                                 else r) (rows d)\<rparr>, 1) \<and>
         get_prop (spread (data task) high_priority) ''priority'' = Some (JStr ''high'') \<and>
         (\<forall>k. k \<noteq> ''priority'' \<longrightarrow>
              get_prop (spread (data task) high_priority) k = own_props (data task) k)"
proof -
  have sel: "\<not> failing d Select" and task_in: "task \<in> set (rows d)"
    using assms(3)
    by (auto simp: db_select_single_def db_select_def single_def
        split: if_splits list.splits dest: filter_eq_ConsD)
  have d1: "data task \<noteq> JNull"
    using assms(5) task_in by blast
  have d2: "\<not> list_ex (\<lambda>t. data t = JNull)
              (case db_select d (\<lambda>e. category e = ''tasks'' \<and> user_id e = Some uid \<and>
                                     entry_id e \<noteq> i \<and> archived e = False) of
                 Inl _ \<Rightarrow> [] | Inr otherTasks \<Rightarrow> otherTasks)"
    using assms(5) sel by (auto simp: db_select_def list_ex_iff)
  have run: "task_chat_POST sess d bi i (Some message) (Some (pre @ priority_block)) =
           (json_response 200 (TaskChatBody (trim pre) True),
            d\<lparr>rows := map (\<lambda>r. if by_id i uid r
                                 then r\<lparr>data := spread (data task) high_priority,
                                        updated_at := now bi\<rparr>
                                 else r) (rows d)\<rparr>, 1)"
    using assms(1,2,4) d1 d2
    by (simp add: task_chat_POST_def assms(3) task_action_at_end [OF assms(7)]
        task_apply_priority [OF assms(8) assms(6)] remove_first_at_end [OF assms(7)])
  have p: "get_prop (spread (data task) high_priority) ''priority'' = Some (JStr ''high'')"
    by (simp add: get_prop_def spread_def own_props_def high_priority_def)
  have k: "\<forall>k. k \<noteq> ''priority'' \<longrightarrow>
              get_prop (spread (data task) high_priority) k = own_props (data task) k"
    by (simp add: get_prop_def spread_def own_props_def high_priority_def map_add_def)
  from run p k show ?thesis by blast
qed

text \<open>How the sample runtime parses the sample blocks, and what Alice finds in the sample store.\<close>

lemma parse_priority:
  "JSON_parse sample_builtins priority_block =
     Some (JObj [''action'' \<mapsto> JStr ''update'', ''updates'' \<mapsto> high_priority])"
  by (simp add: sample_builtins_def sample_parse_def high_priority_def)

lemma parse_note:
  "JSON_parse sample_builtins note_block =
     Some (JObj [''action'' \<mapsto> JStr ''note'', ''updates'' \<mapsto> JObj Map.empty])"
  by (simp add: sample_builtins_def sample_parse_def note_block_def priority_block_def)

lemma parse_broken: "JSON_parse sample_builtins broken_block = None"
  by (simp add: sample_builtins_def sample_parse_def broken_block_def note_block_def
      priority_block_def deadline_block_def status_block_def capture_reply_def)

lemma alice_finds_task: "db_select_single sample_db (by_id ''t1'' ''alice'') = Inr alice_task"
  by (simp add: db_select_single_def db_select_def single_def by_id_def sample_db_def
      alice_task_def alice_project_def alice_old_task_def bob_task_def)

lemma alice_finds_project: "db_select_single sample_db (by_id ''p1'' ''alice'') = Inr alice_project"
  by (simp add: db_select_single_def db_select_def single_def by_id_def sample_db_def
      alice_task_def alice_project_def alice_old_task_def bob_task_def)

lemma sample_data_not_null: "\<forall>e \<in> set (rows sample_db). data e \<noteq> JNull"
  by (simp add: sample_db_def alice_task_def alice_project_def alice_old_task_def bob_task_def)

lemma alice_other_tasks:
  "\<not> list_ex (\<lambda>t. data t = JNull)
       (case db_select sample_db (\<lambda>e. category e = ''tasks'' \<and> user_id e = Some ''alice'' \<and>
                                        entry_id e \<noteq> ''t1'' \<and> archived e = False) of
          Inl _ \<Rightarrow> [] | Inr otherTasks \<Rightarrow> otherTasks)"
  using sample_data_not_null by (auto simp: db_select_def list_ex_iff split: sum.splits)

text \<open>
  The opening \<open>I set {priority} as asked.\<close> holds braces, and no match of the pattern
  starts in it.
\<close>

lemma braced_intro_no_match:
  "no_match_before task_action_rx (braced_intro @ priority_block) (length braced_intro)"
  by code_simp

lemma trim_braced_intro: "trim braced_intro = ''I set {priority} as asked.''"
  by code_simp

text \<open>
  Alice's task \<open>t1\<close> and the reply \<open>I set {priority} as asked.\<close> followed by the block.
\<close>

theorem trailing_priority_block_applied_witness:
  "task_chat_POST alice sample_db sample_builtins ''t1'' (Some ''make it urgent'')
     (Some (braced_intro @ priority_block)) =
     (json_response 200 (TaskChatBody ''I set {priority} as asked.'' True),
      sample_db\<lparr>rows := [alice_old_task,
                          alice_task\<lparr>data := spread (data alice_task) high_priority,
                                     updated_at := now sample_builtins\<rparr>,
                          alice_project, bob_task]\<rparr>, 1) \<and>
   get_prop (spread (data alice_task) high_priority) ''priority'' = Some (JStr ''high'')"
proof -
  have h1: "user alice = Some ''alice''" and h2: "\<not> authError alice"
    by (simp_all add: alice_def)
  have h4: "category alice_task = ''tasks''"
    by (simp add: alice_task_def)
  have h6: "\<not> failing sample_db Update"
    by (simp add: sample_db_def)
  have m: "map (\<lambda>r. if by_id ''t1'' ''alice'' r
                     then r\<lparr>data := spread (data alice_task) high_priority,
                            updated_at := now sample_builtins\<rparr>
                     else r) (rows sample_db) =
           [alice_old_task,
            alice_task\<lparr>data := spread (data alice_task) high_priority,
                       updated_at := now sample_builtins\<rparr>,
            alice_project, bob_task]"
    by (simp add: by_id_def sample_db_def alice_task_def alice_project_def alice_old_task_def
        bob_task_def)
  note t = trailing_priority_block_applied [OF h1 h2 alice_finds_task h4 sample_data_not_null h6
      braced_intro_no_match parse_priority, of "''make it urgent''",
      unfolded trim_braced_intro m]
  from t show ?thesis
    by blast
qed

text \<open>
  The claim as it stands speaks of every reply with the block at its end. The pattern
  takes the first block of a reply: when a block with another action stands before it,
  nothing is written and the text returned is the priority block itself.
\<close>

lemma first_of_two_blocks:
  "rx_exec task_action_rx two_blocks =
     Some \<lparr>m_before = [], matched = note_block, groups = [], m_after = '' '' @ priority_block\<rparr>"
  by code_simp

lemma strip_first_of_two_blocks:
  "trim (remove_first two_blocks note_block) = priority_block"
  by code_simp

theorem earlier_block_wins_counterexample:
  "task_chat_POST alice sample_db sample_builtins ''t1'' (Some ''make it urgent'')
     (Some two_blocks) =
     (json_response 200 (TaskChatBody priority_block False), sample_db, 1)"
proof -
  have a: "\<not> is_update (JObj [''action'' \<mapsto> JStr ''note'', ''updates'' \<mapsto> JObj Map.empty])"
    by (simp add: is_update_def get_prop_def)
  have d: "data alice_task \<noteq> JNull" and c: "category alice_task = ''tasks''"
    by (simp_all add: alice_task_def)
  have ap: "task_apply_action sample_db sample_builtins ''t1'' ''alice'' (data alice_task)
              ''make it urgent'' two_blocks note_block =
            (json_response 200 (TaskChatBody priority_block False), sample_db)"
    by (simp add: task_apply_action_def Let_def parse_note a strip_first_of_two_blocks)
  show ?thesis
    using d c alice_other_tasks
    by (simp add: task_chat_POST_def alice_def alice_finds_task first_of_two_blocks ap)
qed

section \<open>A block that does not parse\<close>

lemma task_apply_unparsed:
  "JSON_parse bi found = None \<Longrightarrow>
   task_apply_action d bi i uid td message msg found =
     (json_response 200 (TaskChatBody msg False), d)"
  by (simp add: task_apply_action_def Let_def)

lemma status_simps:
  "status unauthorized = 401" "status chat_failed = 500" "status (json_response k b) = k"
  by (simp_all add: unauthorized_def chat_failed_def json_response_def)

lemma task_unparsable:
  assumes "rx_exec task_action_rx msg = Some m" and "JSON_parse bi (matched m) = None"
    and "task_chat_POST sess d bi i req (Some msg) = (r, d', n)"
  shows "d' = d \<and> (n = 1 \<longrightarrow> r = json_response 200 (TaskChatBody msg False)) \<and>
         (n \<noteq> 1 \<longrightarrow> status r \<noteq> 200)"
proof -
  have "task_chat_POST sess d bi i req (Some msg) = (json_response 200 (TaskChatBody msg False), d, 1)
        \<or> (\<exists>x. status x \<noteq> 200 \<and> task_chat_POST sess d bi i req (Some msg) = (x, d, 0))"
    unfolding task_chat_POST_def
    by (simp add: assms(1,2) task_apply_unparsed status_simps
        split: option.split sum.split)
  with assms(3) show ?thesis by auto
qed


lemma project_apply_unparsed:
  "JSON_parse bi (trim (rx_remove_all fence_rx mj)) = None \<Longrightarrow>
   project_apply_action d bi i uid pd msg found mj =
     (json_response 200 (ChatBody msg False None), d)"
  by (simp add: project_apply_action_def Let_def)

lemma project_unparsable:
  assumes "first_match jsonPatterns msg = Some (m, mj)"
    and "JSON_parse bi (trim (rx_remove_all fence_rx mj)) = None"
    and "project_chat_POST sess d bi i req (Some msg) = (r, d', n)"
  shows "d' = d \<and> (n = 1 \<longrightarrow> r = json_response 200 (ChatBody msg False None)) \<and>
         (n \<noteq> 1 \<longrightarrow> status r \<noteq> 200)"
proof -
  have "project_chat_POST sess d bi i req (Some msg) =
          (json_response 200 (ChatBody msg False None), d, 1)
        \<or> (\<exists>x. status x \<noteq> 200 \<and> project_chat_POST sess d bi i req (Some msg) = (x, d, 0))"
    unfolding project_chat_POST_def
    by (simp add: assms(1,2) project_apply_unparsed status_simps
        split: option.split sum.split)
  with assms(3) show ?thesis by auto
qed

lemma idea_apply_unparsed:
  "JSON_parse bi (trim (rx_remove_all fence_rx mj)) = None \<Longrightarrow>
   idea_apply_action d bi i uid pd msg found mj =
     (json_response 200 (ChatBody msg False None), d)"
  by (simp add: idea_apply_action_def Let_def)

lemma idea_unparsable:
  assumes "first_match jsonPatterns msg = Some (m, mj)"
    and "JSON_parse bi (trim (rx_remove_all fence_rx mj)) = None"
    and "idea_chat_POST sess d bi i req (Some msg) = (r, d', n)"
  shows "d' = d \<and> (n = 1 \<longrightarrow> r = json_response 200 (ChatBody msg False None)) \<and>
         (n \<noteq> 1 \<longrightarrow> status r \<noteq> 200)"
proof -
  have "idea_chat_POST sess d bi i req (Some msg) =
          (json_response 200 (ChatBody msg False None), d, 1)
        \<or> (\<exists>x. status x \<noteq> 200 \<and> idea_chat_POST sess d bi i req (Some msg) = (x, d, 0))"
    unfolding idea_chat_POST_def
    by (simp add: assms(1,2) idea_apply_unparsed status_simps
        split: option.split sum.split)
  with assms(3) show ?thesis by auto
qed

text \<open>
  Claim C5. When the block that the task chat, the project chat or the idea chat extracts
  from the reply does not parse, the store is left as it was, and the response that
  follows the model call is the success response with the whole reply, block included, and
  no update reported. (A response that does not follow a model call is an error response.)
\<close>

theorem unparsable_block_keeps_reply:
  "(rx_exec task_action_rx msg = Some m \<and> JSON_parse bi (matched m) = None \<and>
    task_chat_POST sess d bi i req (Some msg) = (r, d', n) \<longrightarrow>
      d' = d \<and> (n = 1 \<longrightarrow> r = json_response 200 (TaskChatBody msg False)) \<and>
      (n \<noteq> 1 \<longrightarrow> status r \<noteq> 200)) \<and>
   (first_match jsonPatterns msg = Some (m, mj) \<and>
    JSON_parse bi (trim (rx_remove_all fence_rx mj)) = None \<and>
    project_chat_POST sess d bi i req (Some msg) = (r, d', n) \<longrightarrow>
      d' = d \<and> (n = 1 \<longrightarrow> r = json_response 200 (ChatBody msg False None)) \<and>
      (n \<noteq> 1 \<longrightarrow> status r \<noteq> 200)) \<and>
   (first_match jsonPatterns msg = Some (m, mj) \<and>
    JSON_parse bi (trim (rx_remove_all fence_rx mj)) = None \<and>
    idea_chat_POST sess d bi i req (Some msg) = (r, d', n) \<longrightarrow>
      d' = d \<and> (n = 1 \<longrightarrow> r = json_response 200 (ChatBody msg False None)) \<and>
      (n \<noteq> 1 \<longrightarrow> status r \<noteq> 200))"
proof (intro conjI)
  show "rx_exec task_action_rx msg = Some m \<and> JSON_parse bi (matched m) = None \<and>
    task_chat_POST sess d bi i req (Some msg) = (r, d', n) \<longrightarrow>
      d' = d \<and> (n = 1 \<longrightarrow> r = json_response 200 (TaskChatBody msg False)) \<and>
      (n \<noteq> 1 \<longrightarrow> status r \<noteq> 200)"
    using task_unparsable [of msg m bi sess d i req r d' n] by blast
  show "first_match jsonPatterns msg = Some (m, mj) \<and>
    JSON_parse bi (trim (rx_remove_all fence_rx mj)) = None \<and>
    project_chat_POST sess d bi i req (Some msg) = (r, d', n) \<longrightarrow>
      d' = d \<and> (n = 1 \<longrightarrow> r = json_response 200 (ChatBody msg False None)) \<and>
      (n \<noteq> 1 \<longrightarrow> status r \<noteq> 200)"
    using project_unparsable [of msg m mj bi sess d i req r d' n] by blast
  show "first_match jsonPatterns msg = Some (m, mj) \<and>
    JSON_parse bi (trim (rx_remove_all fence_rx mj)) = None \<and>
    idea_chat_POST sess d bi i req (Some msg) = (r, d', n) \<longrightarrow>
      d' = d \<and> (n = 1 \<longrightarrow> r = json_response 200 (ChatBody msg False None)) \<and>
      (n \<noteq> 1 \<longrightarrow> status r \<noteq> 200)"
    using idea_unparsable [of msg m mj bi sess d i req r d' n] by blast
qed

lemma broken_task_match:
  "rx_exec task_action_rx broken_reply =
     Some \<lparr>m_before = ''Done. '', matched = broken_block, groups = [], m_after = []\<rparr>"
  by code_simp

lemma broken_project_match:
  "first_match jsonPatterns broken_reply =
     Some (\<lparr>m_before = ''Done. '', matched = broken_block, groups = [], m_after = []\<rparr>,
           broken_block)"
  by code_simp

lemma broken_clean: "trim (rx_remove_all fence_rx broken_block) = broken_block"
  by code_simp

lemma broken_task_run:
  "task_chat_POST alice sample_db sample_builtins ''t1'' (Some ''make it urgent'')
     (Some broken_reply) = (json_response 200 (TaskChatBody broken_reply False), sample_db, 1)"
proof -
  have d: "data alice_task \<noteq> JNull" and c: "category alice_task = ''tasks''"
    by (simp_all add: alice_task_def)
  show ?thesis
    using d c alice_other_tasks
    by (simp add: task_chat_POST_def alice_def alice_finds_task broken_task_match
        task_apply_unparsed [OF parse_broken])
qed

lemma broken_project_run:
  "project_chat_POST alice sample_db sample_builtins ''p1'' (Some ''make it urgent'')
     (Some broken_reply) = (json_response 200 (ChatBody broken_reply False None), sample_db, 1)"
proof -
  have d: "data alice_project \<noteq> JNull" and c: "category alice_project = ''projects''"
    by (simp_all add: alice_project_def)
  have p: "JSON_parse sample_builtins (trim (rx_remove_all fence_rx broken_block)) = None"
    unfolding broken_clean by (rule parse_broken)
  show ?thesis
    using d c
    by (simp add: project_chat_POST_def alice_def alice_finds_project broken_project_match
        project_apply_unparsed [OF p])
qed

lemma alice_finds_idea: "db_select_single idea_db (by_id ''i1'' ''alice'') = Inr alice_idea"
  by (simp add: db_select_single_def db_select_def single_def by_id_def idea_db_def
      alice_idea_def bob_task_def)

lemma broken_idea_run:
  "idea_chat_POST alice idea_db sample_builtins ''i1'' (Some ''make it urgent'')
     (Some broken_reply) = (json_response 200 (ChatBody broken_reply False None), idea_db, 1)"
proof -
  have d: "data alice_idea \<noteq> JNull" and c: "category alice_idea = ''ideas''"
    by (simp_all add: alice_idea_def)
  have p: "JSON_parse sample_builtins (trim (rx_remove_all fence_rx broken_block)) = None"
    unfolding broken_clean by (rule parse_broken)
  show ?thesis
    using d c
    by (simp add: idea_chat_POST_def alice_def alice_finds_idea broken_project_match
        idea_apply_unparsed [OF p])
qed

text \<open>Alice's task, project and idea, and a reply whose block has unquoted names.\<close>

theorem unparsable_block_keeps_reply_witness:
  "task_chat_POST alice sample_db sample_builtins ''t1'' (Some ''make it urgent'')
     (Some broken_reply) = (json_response 200 (TaskChatBody broken_reply False), sample_db, 1) \<and>
   project_chat_POST alice sample_db sample_builtins ''p1'' (Some ''make it urgent'')
     (Some broken_reply) = (json_response 200 (ChatBody broken_reply False None), sample_db, 1) \<and>
   idea_chat_POST alice idea_db sample_builtins ''i1'' (Some ''make it urgent'')
     (Some broken_reply) = (json_response 200 (ChatBody broken_reply False None), idea_db, 1)"
proof -
  have p: "JSON_parse sample_builtins (trim (rx_remove_all fence_rx broken_block)) = None"
    unfolding broken_clean by (rule parse_broken)
  have q: "JSON_parse sample_builtins
             (matched \<lparr>m_before = ''Done. '', matched = broken_block, groups = [], m_after = []\<rparr>) = None"
    using parse_broken by simp
  note t = unparsable_block_keeps_reply [THEN conjunct1, rule_format,
      OF conjI [OF broken_task_match conjI [OF q broken_task_run]]]
  note u = unparsable_block_keeps_reply [THEN conjunct2, THEN conjunct1, rule_format,
      OF conjI [OF broken_project_match conjI [OF p broken_project_run]]]
  note v = unparsable_block_keeps_reply [THEN conjunct2, THEN conjunct2, rule_format,
      OF conjI [OF broken_project_match conjI [OF p broken_idea_run]]]
  from t u v broken_task_run broken_project_run broken_idea_run show ?thesis
    by blast
qed

section \<open>The status of a project\<close>

text \<open>
  What the check of the project chat does: a status that is truthy and not one of
  \<open>active\<close>, \<open>on-hold\<close>, \<open>completed\<close> is deleted from the updates, and no other
  property of the updates is touched.
\<close>

lemma validate_status_drops:
  assumes "get_prop u ''status'' = Some st" and "truthy (Some st)" and "st \<notin> set allowed_status"
  shows "get_prop (validate_status u) ''status'' = None \<and>
         (\<forall>k. k \<noteq> ''status'' \<longrightarrow> get_prop (validate_status u) k = get_prop u k)"
  using assms by (cases u) (simp_all add: validate_status_def get_prop_def delete_prop_def)

lemma parse_status:
  "JSON_parse sample_builtins status_block =
     Some (JObj [''action'' \<mapsto> JStr ''update'', ''updates'' \<mapsto> empty_status])"
  by (simp add: sample_builtins_def sample_parse_def empty_status_def status_block_def
      note_block_def priority_block_def deadline_block_def)

lemma status_match:
  "first_match jsonPatterns status_reply =
     Some (\<lparr>m_before = ''Done. '', matched = status_block, groups = [], m_after = []\<rparr>,
           status_block)"
  by code_simp

lemma status_clean: "trim (rx_remove_all fence_rx status_block) = status_block"
  by code_simp

lemma status_stripped: "trim (remove_first status_reply status_block) = ''Done.''"
  by code_simp

lemma empty_status_kept: "validate_status empty_status = empty_status"
  by (simp add: validate_status_def empty_status_def get_prop_def truthy_def)

text \<open>
  Claim C6 has every status outside the three allowed values removed before the merge.
  The check reads \<open>action.updates.status && ...\<close>, so a status that is falsy is not
  looked at: the empty string, which is not an allowed status, stays in the updates and is
  written to the project. Here the project chat runs on the reply
  \<open>Done. {"action":"update","updates":{"status":"","goal":"Ship"}}\<close> for Alice's project.
\<close>

theorem empty_status_is_persisted:
  "project_chat_POST alice sample_db sample_builtins ''p1'' (Some ''clear the status'')
     (Some status_reply) =
     (json_response 200 (ChatBody ''Done.'' True (Some empty_status)),
      sample_db\<lparr>rows := [alice_old_task, alice_task,
                          alice_project\<lparr>data := spread (data alice_project) empty_status,
                                        updated_at := now sample_builtins\<rparr>,
                          bob_task]\<rparr>, 1) \<and>
   get_prop empty_status ''status'' = Some (JStr []) \<and> JStr [] \<notin> set allowed_status \<and>
   get_prop (spread (data alice_project) empty_status) ''status'' = Some (JStr [])"
proof -
  have d: "data alice_project \<noteq> JNull" and c: "category alice_project = ''projects''"
    by (simp_all add: alice_project_def)
  have u: "is_update (JObj [''action'' \<mapsto> JStr ''update'', ''updates'' \<mapsto> empty_status])"
    by (simp add: is_update_def get_prop_def truthy_def empty_status_def)
  have t: "the_updates (JObj [''action'' \<mapsto> JStr ''update'', ''updates'' \<mapsto> empty_status]) =
             empty_status"
    by (simp add: the_updates_def get_prop_def)
  have f: "\<not> failing sample_db Update"
    by (simp add: sample_db_def)
  have m: "map (\<lambda>r. if by_id ''p1'' ''alice'' r
                     then r\<lparr>data := spread (data alice_project) empty_status,
                            updated_at := now sample_builtins\<rparr>
                     else r) (rows sample_db) =
           [alice_old_task, alice_task,
            alice_project\<lparr>data := spread (data alice_project) empty_status,
                          updated_at := now sample_builtins\<rparr>,
            bob_task]"
    by (simp add: by_id_def sample_db_def alice_task_def alice_project_def alice_old_task_def
        bob_task_def)
  have ap: "project_apply_action sample_db sample_builtins ''p1'' ''alice'' (data alice_project)
              status_reply status_block status_block =
            (json_response 200 (ChatBody ''Done.'' True (Some empty_status)),
             sample_db\<lparr>rows := [alice_old_task, alice_task,
                          alice_project\<lparr>data := spread (data alice_project) empty_status,
                                        updated_at := now sample_builtins\<rparr>,
                          bob_task]\<rparr>)"
    by (simp add: project_apply_action_def Let_def status_clean parse_status u t
        empty_status_kept status_stripped db_update_data [OF f spread_not_null] m)
  have run: "project_chat_POST alice sample_db sample_builtins ''p1'' (Some ''clear the status'')
     (Some status_reply) =
     (json_response 200 (ChatBody ''Done.'' True (Some empty_status)),
      sample_db\<lparr>rows := [alice_old_task, alice_task,
                          alice_project\<lparr>data := spread (data alice_project) empty_status,
                                        updated_at := now sample_builtins\<rparr>,
                          bob_task]\<rparr>, 1)"
    using d c
    by (simp add: project_chat_POST_def alice_def alice_finds_project status_match ap)
  have s: "get_prop empty_status ''status'' = Some (JStr [])" "JStr [] \<notin> set allowed_status"
    "get_prop (spread (data alice_project) empty_status) ''status'' = Some (JStr [])"
    by (simp_all add: get_prop_def empty_status_def allowed_status_def spread_def own_props_def)
  from run s show ?thesis by blast
qed

section \<open>Natural dates\<close>



























text \<open>
  The time pattern matches at the first digit of a text, so a text with a digit never
  reaches the generic date parser: \<open>2024-03-15\<close>, which that parser reads as a date,
  is resolved to 20 o'clock of today.
\<close>

lemma time_at_digit: "is_digit c \<Longrightarrow> rx_paths time_rx (c # cs) \<noteq> []"
  by (simp add: time_rx_def seqs_def)

lemma digit_gives_time: "\<exists>c \<in> set s. is_digit c \<Longrightarrow> rx_exec time_rx s \<noteq> None"
proof (induction s)
  case Nil
  then show ?case by simp
next
  case (Cons c cs)
  show ?case
  proof (cases "rx_paths time_rx (c # cs)")
    case Nil
    then have "\<not> is_digit c"
      using time_at_digit by blast
    with Cons Nil show ?thesis by simp
  next
    case (Cons p ps)
    then show ?thesis by (cases p) simp
  qed
qed

lemma iso_date_read_as_time:
  "parseNaturalDate sample_builtins ''2024-03-15'' =
     Some (toISOString sample_builtins (setHours sample_builtins (now sample_builtins) 20 0)) \<and>
   Date_parse sample_builtins ''2024-03-15'' = Some 1710460800000 \<and>
   setHours sample_builtins (now sample_builtins) 20 0 = 1710093600000"
proof -
  have l: "trim (toLowerCase ''2024-03-15'') = ''2024-03-15''"
    by code_simp
  have m: "map_option match_clock (rx_exec time_rx ''2024-03-15'') = Some (20, 0)"
    by code_simp
  have i: "\<not> str_includes ''2024-03-15'' ''tomorrow''"
    by code_simp
  have p: "parseNaturalDate sample_builtins ''2024-03-15'' =
     Some (toISOString sample_builtins (setHours sample_builtins (now sample_builtins) 20 0))"
    using m i by (auto simp: parseNaturalDate_def l Let_def split: option.splits)
  have d: "Date_parse sample_builtins ''2024-03-15'' = Some 1710460800000"
    by (simp add: sample_builtins_def)
  have h: "setHours sample_builtins (now sample_builtins) 20 0 = 1710093600000"
    by (simp add: setHours_def local_day_def sample_builtins_def ms_per_day_def)
  from p d h show ?thesis by blast
qed

end
